theory Spec2Isabelle
  imports Complex_Main
begin

section \<open>Strings and numbers of the Python source\<close>

text \<open>
  Python \<open>str\<close> values are modelled as \<open>string\<close> and Python \<open>float\<close> values as
  \<open>real\<close>: the weights 0.4, 0.3, 0.15, 0.15 and the quotients built from them are exact
  rationals here.

  \<open>str.lower()\<close> is modelled on the ASCII letters. Python also lowers characters
  outside ASCII, and one of them to an ASCII letter alone: the Kelvin sign, to \<open>k\<close>. The
  literals the source compares a lowered string with (\<open>excellent\<close>, \<open>good\<close>,
  \<open>fair\<close>, \<open>poor\<close>, \<open>claude\<close>, \<open>lemonade\<close>) contain no \<open>k\<close>, so the
  comparisons come out as Python's do.
\<close>

definition lower_char :: "char \<Rightarrow> char" where
  "lower_char c =
     (case map_of (zip ''ABCDEFGHIJKLMNOPQRSTUVWXYZ'' ''abcdefghijklmnopqrstuvwxyz'') c of
        None \<Rightarrow> c
      | Some d \<Rightarrow> d)"

definition lower :: "string \<Rightarrow> string" where
  "lower s = map lower_char s"

text \<open>\<open>str(n)\<close> for a non-negative integer: its decimal digits.\<close>

definition digit_char :: "nat \<Rightarrow> char" where
  "digit_char d = ''0123456789'' ! d"

function str_nat :: "nat \<Rightarrow> string" where
  "str_nat n = (if n < 10 then [digit_char n] else str_nat (n div 10) @ [digit_char (n mod 10)])"
  by pat_completeness auto
termination
  by (relation "measure id") auto

declare str_nat.simps [simp del]

section \<open>The pass/fail decision: \<open>RagEvaluator.determine_pass_fail\<close> (eval.py)\<close>

text \<open>
  The rubric \<open>claude_analysis\<close> is a dictionary from criterion names to dictionaries of
  string fields (\<open>rating\<close>, \<open>explanation\<close>); both levels are association lists read with
  \<open>map_of\<close>. The argument is optional: \<open>None\<close> and the empty dictionary are both falsy
  in \<open>if not claude_analysis\<close>.
  This is the rubric of the specification; the dictionaries of other shapes that
  \<open>json.loads\<close> can hand over are modelled after it, in \<open>determine_pass_fail_json\<close>.

  The verdict is the dictionary the function returns. Its \<open>reasoning\<close> text is left out:
  it prints the floats with \<open>:.3f\<close> and carries no information beyond the three checks
  \<open>similarity_pass\<close>, \<open>qualitative_pass\<close> and \<open>correctness_acceptable\<close>, which are
  functions of their own here.
\<close>

type_synonym rubric = "(string \<times> (string \<times> string) list) list"

record scores =
  similarity :: real
  qualitative_normalized :: real
  qualitative_details :: "string list"

record verdict =
  is_pass :: bool
  pass_fail :: string
  criteria :: string
  scores :: "scores option"

definition criteria_names :: "string list" where
  "criteria_names = [''correctness'', ''completeness'', ''conciseness'', ''relevance'']"

text \<open>\<open>claude_analysis[criterion].get("rating", "").lower()\<close>\<close>

definition get_rating :: "(string \<times> string) list \<Rightarrow> string" where
  "get_rating d = lower (case map_of d ''rating'' of None \<Rightarrow> '''' | Some r \<Rightarrow> r)"

text \<open>The first loop: the dictionary \<open>ratings\<close>, in the order of the four criteria.\<close>

fun extract_ratings :: "rubric \<Rightarrow> string list \<Rightarrow> (string \<times> string) list" where
  "extract_ratings claude_analysis [] = []"
| "extract_ratings claude_analysis (criterion # cs) =
     (case map_of claude_analysis criterion of
        None \<Rightarrow> extract_ratings claude_analysis cs
      | Some d \<Rightarrow> (criterion, get_rating d) # extract_ratings claude_analysis cs)"

definition score_map :: "(string \<times> nat) list" where
  "score_map = [(''excellent'', 4), (''good'', 3), (''fair'', 2), (''poor'', 1)]"

definition weights :: "(string \<times> real) list" where
  "weights = [(''correctness'', 0.4), (''completeness'', 0.3),
              (''conciseness'', 0.15), (''relevance'', 0.15)]"

text \<open>\<open>score_map.get(rating, 1)\<close>\<close>

definition rating_score :: "string \<Rightarrow> nat" where
  "rating_score rating = (case map_of score_map rating of None \<Rightarrow> 1 | Some s \<Rightarrow> s)"

text \<open>
  The second loop, over \<open>weights.items()\<close>, with its three accumulators
  \<open>(total_score, max_possible, criteria_details)\<close>.
\<close>

fun weighted_totals ::
  "(string \<times> string) list \<Rightarrow> (string \<times> real) list \<Rightarrow> real \<times> real \<times> string list
     \<Rightarrow> real \<times> real \<times> string list" where
  "weighted_totals ratings [] acc = acc"
| "weighted_totals ratings ((criterion, weight) # ws) (total_score, max_possible, criteria_details) =
     (case map_of ratings criterion of
        None \<Rightarrow> weighted_totals ratings ws (total_score, max_possible, criteria_details)
      | Some rating \<Rightarrow>
          (let score = rating_score rating;
               weighted_score = real score * weight
           in weighted_totals ratings ws
                (total_score + weighted_score,
                 max_possible + 4 * weight,
                 criteria_details @
                   [criterion @ '': '' @ rating @ '' ('' @ str_nat score @ ''/4)''])))"

text \<open>
  Python's \<open>/\<close> raises \<open>ZeroDivisionError\<close> on a zero divisor, where HOL's returns 0:
  the division is a function that can fail, and so is everything that calls it.
\<close>

datatype py_error = ZeroDivisionError | ValueError string | AttributeError

definition truediv :: "real \<Rightarrow> real \<Rightarrow> py_error + real" where
  "truediv a b = (if b = 0 then Inl ZeroDivisionError else Inr (a / b))"

text \<open>\<open>total_score / max_possible if max_possible > 0 else 0\<close>\<close>

definition normalized_score :: "(string \<times> string) list \<Rightarrow> py_error + real" where
  "normalized_score ratings =
     (case weighted_totals ratings weights (0, 0, []) of
        (total_score, max_possible, criteria_details) \<Rightarrow>
          if max_possible > 0 then truediv total_score max_possible else Inr 0)"

text \<open>\<open>ratings.get("correctness", "poor") in ["fair", "good", "excellent"]\<close>\<close>

definition correctness_acceptable :: "(string \<times> string) list \<Rightarrow> bool" where
  "correctness_acceptable ratings =
     ((case map_of ratings ''correctness'' of None \<Rightarrow> ''poor'' | Some r \<Rightarrow> r)
        \<in> set [''fair'', ''good'', ''excellent''])"

text \<open>\<open>normalized_score >= 0.6 and correctness_acceptable\<close>\<close>

definition qualitative_pass :: "real \<Rightarrow> (string \<times> string) list \<Rightarrow> bool" where
  "qualitative_pass score ratings = (score \<ge> 0.6 \<and> correctness_acceptable ratings)"

text \<open>The dictionary returned by the branch \<open>if not claude_analysis\<close>.\<close>

definition similarity_only :: "bool \<Rightarrow> verdict" where
  "similarity_only similarity_pass =
     \<lparr> is_pass = similarity_pass,
       pass_fail = (if similarity_pass then ''pass'' else ''fail''),
       criteria = ''similarity_only'',
       scores = None \<rparr>"

definition determine_pass_fail :: "real \<Rightarrow> real \<Rightarrow> rubric option \<Rightarrow> py_error + verdict" where
  "determine_pass_fail similarity_score threshold claude_analysis =
     (let similarity_pass = (similarity_score \<ge> threshold) in
      case claude_analysis of
        None \<Rightarrow> Inr (similarity_only similarity_pass)
      | Some ca \<Rightarrow>
          if ca = [] then Inr (similarity_only similarity_pass)
          else
            (let ratings = extract_ratings ca criteria_names in
             case normalized_score ratings of
               Inl e \<Rightarrow> Inl e
             | Inr score \<Rightarrow>
                 (let final_pass = (similarity_pass \<or> qualitative_pass score ratings);
                      final_pass =
                        (if (case map_of ratings ''correctness'' of None \<Rightarrow> '''' | Some r \<Rightarrow> r)
                              = ''poor''
                         then False else final_pass)
                  in Inr \<lparr> is_pass = final_pass,
                           pass_fail = (if final_pass then ''pass'' else ''fail''),
                           criteria = ''comprehensive'',
                           scores = Some \<lparr> similarity = similarity_score,
                                           qualitative_normalized = score,
                                           qualitative_details =
                                             snd (snd (weighted_totals ratings weights (0, 0, []))) \<rparr> \<rparr>)))"

text \<open>Rubrics used below as concrete inputs.\<close>

definition poor_correctness :: rubric where
  "poor_correctness = [(''correctness'', [(''rating'', ''poor'')])]"

definition all_good :: rubric where
  "all_good = [(''correctness'', [(''rating'', ''good'')]), (''completeness'', [(''rating'', ''good'')]),
               (''conciseness'', [(''rating'', ''good'')]), (''relevance'', [(''rating'', ''good'')])]"

definition terrible :: rubric where
  "terrible = [(''correctness'', [(''rating'', ''terrible'')])]"

subsection \<open>The rubric as \<open>json.loads\<close> returns it\<close>

text \<open>
  The callers pass the dictionary that \<open>json.loads\<close> reads from the judge's answer,
  unvalidated: its entries are arbitrary JSON values. The first loop of
  \<open>determine_pass_fail\<close> calls \<open>.get("rating", "")\<close> on the entry of a criterion and
  \<open>.lower()\<close> on what it gets. Only a dictionary has \<open>get\<close> and only a string has
  \<open>lower\<close>: on an entry of another shape Python raises \<open>AttributeError\<close>, in the order
  of the four criteria. \<open>determine_pass_fail_json\<close> is the function on such a
  dictionary; the rest of it, from the scoring on, is \<open>comprehensive\<close>.
\<close>

datatype json =
  JNull
| JBool bool
| JNumber real
| JString string
| JArray "json list"
| JObject "(string \<times> json) list"

type_synonym json_rubric = "(string \<times> json) list"

text \<open>\<open>claude_analysis[criterion].get("rating", "").lower()\<close>\<close>

fun get_rating_json :: "json \<Rightarrow> py_error + string" where
  "get_rating_json (JObject d) =
     (case map_of d ''rating'' of
        None \<Rightarrow> Inr (lower '''')
      | Some (JString r) \<Rightarrow> Inr (lower r)
      | Some other \<Rightarrow> Inl AttributeError)"
| "get_rating_json other = Inl AttributeError"

fun extract_ratings_json :: "json_rubric \<Rightarrow> string list \<Rightarrow> py_error + (string \<times> string) list" where
  "extract_ratings_json claude_analysis [] = Inr []"
| "extract_ratings_json claude_analysis (criterion # cs) =
     (case map_of claude_analysis criterion of
        None \<Rightarrow> extract_ratings_json claude_analysis cs
      | Some entry \<Rightarrow>
          (case get_rating_json entry of
             Inl e \<Rightarrow> Inl e
           | Inr rating \<Rightarrow>
               (case extract_ratings_json claude_analysis cs of
                  Inl e \<Rightarrow> Inl e
                | Inr ratings \<Rightarrow> Inr ((criterion, rating) # ratings))))"

text \<open>The function from the scoring on, given the dictionary \<open>ratings\<close>.\<close>

definition comprehensive :: "real \<Rightarrow> real \<Rightarrow> (string \<times> string) list \<Rightarrow> py_error + verdict" where
  "comprehensive similarity_score threshold ratings =
     (let similarity_pass = (similarity_score \<ge> threshold) in
      case normalized_score ratings of
        Inl e \<Rightarrow> Inl e
      | Inr score \<Rightarrow>
          (let final_pass = (similarity_pass \<or> qualitative_pass score ratings);
               final_pass =
                 (if (case map_of ratings ''correctness'' of None \<Rightarrow> '''' | Some r \<Rightarrow> r)
                       = ''poor''
                  then False else final_pass)
           in Inr \<lparr> is_pass = final_pass,
                    pass_fail = (if final_pass then ''pass'' else ''fail''),
                    criteria = ''comprehensive'',
                    scores = Some \<lparr> similarity = similarity_score,
                                    qualitative_normalized = score,
                                    qualitative_details =
                                      snd (snd (weighted_totals ratings weights (0, 0, []))) \<rparr> \<rparr>))"

definition determine_pass_fail_json :: "real \<Rightarrow> real \<Rightarrow> json_rubric option \<Rightarrow> py_error + verdict" where
  "determine_pass_fail_json similarity_score threshold claude_analysis =
     (let similarity_pass = (similarity_score \<ge> threshold) in
      case claude_analysis of
        None \<Rightarrow> Inr (similarity_only similarity_pass)
      | Some ca \<Rightarrow>
          if ca = [] then Inr (similarity_only similarity_pass)
          else
            (case extract_ratings_json ca criteria_names of
               Inl e \<Rightarrow> Inl e
             | Inr ratings \<Rightarrow> comprehensive similarity_score threshold ratings))"

text \<open>
  A rubric of the first model, as the dictionary it stands for: every entry a dictionary
  of strings.
\<close>

definition json_of_rubric :: "rubric \<Rightarrow> json_rubric" where
  "json_of_rubric ca = map (\<lambda>(criterion, d). (criterion, JObject (map (\<lambda>(k, v). (k, JString v)) d))) ca"

text \<open>
  The shapes on which the first loop does not raise: the entry of each of the four
  criteria, when there is one, is a dictionary whose rating, when there is one, is a
  string.
\<close>

fun readable_entry :: "json \<Rightarrow> bool" where
  "readable_entry (JObject d) =
     (case map_of d ''rating'' of None \<Rightarrow> True | Some (JString r) \<Rightarrow> True | Some other \<Rightarrow> False)"
| "readable_entry other = False"

definition readable :: "json_rubric \<Rightarrow> bool" where
  "readable ca =
     list_all (\<lambda>criterion. case map_of ca criterion of None \<Rightarrow> True | Some entry \<Rightarrow> readable_entry entry)
       criteria_names"

text \<open>Dictionaries used below as concrete inputs.\<close>

definition bare_rating :: json_rubric where
  "bare_rating = [(''correctness'', JString ''poor'')]"

definition null_rating :: json_rubric where
  "null_rating = [(''correctness'', JObject [(''rating'', JNull), (''explanation'', JString ''n/a'')])]"

definition unknown_criteria :: json_rubric where
  "unknown_criteria = [(''accuracy'', JObject [(''rating'', JString ''excellent'')])]"

section \<open>The experiment runner: \<open>BatchExperimentRunner\<close> (batch_experiment.py)\<close>

subsection \<open>Strings\<close>

text \<open>
  \<open>str.strip()\<close> and \<open>str.rstrip()\<close> remove white space at the ends; the white space
  modelled is the ASCII one (space, the controls 9 to 13 and 28 to 31). \<open>str.isalnum\<close> is
  modelled on the ASCII letters and digits. \<open>sep.join(xs)\<close> is \<open>join sep xs\<close>.
\<close>

definition isspace :: "char \<Rightarrow> bool" where
  "isspace c = (c \<in> set [CHR 0x20, CHR 0x09, CHR 0x0A, CHR 0x0B, CHR 0x0C, CHR 0x0D,
                           CHR 0x1C, CHR 0x1D, CHR 0x1E, CHR 0x1F])"

definition rstrip :: "string \<Rightarrow> string" where
  "rstrip s = rev (dropWhile isspace (rev s))"

definition strip :: "string \<Rightarrow> string" where
  "strip s = rstrip (dropWhile isspace s)"

definition isalnum :: "char \<Rightarrow> bool" where
  "isalnum c = (c \<in> set ''abcdefghijklmnopqrstuvwxyzABCDEFGHIJKLMNOPQRSTUVWXYZ0123456789'')"

fun join :: "string \<Rightarrow> string list \<Rightarrow> string" where
  "join sep [] = []"
| "join sep [x] = x"
| "join sep (x # y # ys) = x @ sep @ join sep (y # ys)"

definition nl :: string where
  "nl = [CHR 0x0A]"

subsection \<open>Usage and cost dictionaries\<close>

text \<open>
  The usage and cost dictionaries are association lists from the key to the number.
  A dictionary the backend reports may lack keys (\<open>.get(key, 0)\<close>) and may be empty or
  \<open>None\<close>, both falsy and both written \<open>[]\<close>; the running totals always have their three
  keys.
\<close>

type_synonym usage = "(string \<times> int) list"
type_synonym cost = "(string \<times> real) list"

definition zero_usage :: usage where
  "zero_usage = [(''input_tokens'', 0), (''output_tokens'', 0), (''total_tokens'', 0)]"

definition zero_cost :: cost where
  "zero_cost = [(''input_cost'', 0), (''output_cost'', 0), (''total_cost'', 0)]"

text \<open>
  \<open>if d: for key in totals: totals[key] += d.get(key, 0)\<close>
\<close>

definition accumulate :: "(string \<times> 'a::{zero,plus}) list \<Rightarrow> (string \<times> 'a) list \<Rightarrow> (string \<times> 'a) list" where
  "accumulate totals d =
     (if d = [] then totals
      else map (\<lambda>(key, v). (key, v + (case map_of d key of None \<Rightarrow> 0 | Some x \<Rightarrow> x))) totals)"

subsection \<open>The backends\<close>

text \<open>
  The two model clients are outside the repository's core. A call either raises (the
  outcome carries \<open>str(e)\<close>) or returns. Everything a \<open>try\<close> block does with the
  returned value before its \<open>except Exception\<close> belongs to the call's outcome, so
  \<open>Raises\<close> also stands for a response the block cannot read. A backend may answer the
  same prompt differently each time: it is a function of the number of calls made before
  and of the prompt (the model name, \<open>max_tokens\<close>, \<open>temperature\<close> and \<open>stream=False\<close>
  are fixed during an experiment).

  A hosted response is \<open>{"content", "usage", "cost"}\<close>, the content already read as
  text. A local response is the value of its \<open>choices\<close> key: \<open>None\<close> when the key is
  absent, otherwise the list of choice dictionaries.
\<close>

datatype 'a outcome = Raises string | Returns 'a

datatype response_data = ResponseData string usage cost

type_synonym choices = "(string \<times> string) list list option"

record backends =
  get_completion_with_usage :: "nat \<Rightarrow> string \<Rightarrow> response_data outcome"
  completions :: "nat \<Rightarrow> string \<Rightarrow> choices outcome"

datatype client =
  ClaudeClient "nat \<Rightarrow> string \<Rightarrow> response_data outcome"
| LemonadeClient "nat \<Rightarrow> string \<Rightarrow> choices outcome"

text \<open>
  What a run does besides returning: the number of backend calls made so far, and the
  lines written with \<open>self.log.error\<close>.
\<close>

record effects =
  calls :: nat
  error_log :: "string list"

definition log_error :: "string \<Rightarrow> effects \<Rightarrow> effects" where
  "log_error msg st = st\<lparr>error_log := error_log st @ [msg]\<rparr>"

definition call :: "(nat \<Rightarrow> string \<Rightarrow> 'a outcome) \<Rightarrow> string \<Rightarrow> effects \<Rightarrow> 'a outcome \<times> effects" where
  "call api prompt st = (api (calls st) prompt, st\<lparr>calls := Suc (calls st)\<rparr>)"

text \<open>
  \<open>response_data["choices"][0].get("text", "")\<close> when the key is there and the list is
  not empty, otherwise the empty string.
\<close>

definition choices_text :: "choices \<Rightarrow> string" where
  "choices_text response_data =
     (case response_data of
        None \<Rightarrow> ''''
      | Some [] \<Rightarrow> ''''
      | Some (c # cs) \<Rightarrow> (case map_of c ''text'' of None \<Rightarrow> '''' | Some t \<Rightarrow> t))"

subsection \<open>Experiments, work items, results\<close>

record experiment_config =
  name :: string
  llm_type :: string
  model :: string
  system_prompt :: string
  experiment_type :: string
  max_tokens :: int
  temperature :: real
  parameters :: "(string \<times> string) list"

text \<open>
  A work item is a dictionary with a \<open>type\<close> key; the loaders build the three kinds below
  with all their fields. \<open>Other\<close> is an item whose type is anything else.
\<close>

datatype data_item =
  QA string string
| QARaw string string "string list"
| Summarization string string "(string \<times> string) list option"
| Other string

text \<open>
  The dictionary \<open>{"response", "usage", "cost", "error"}\<close> that every processing
  strategy returns. The response is a text, or the dictionary of the summary components.
\<close>

datatype response = Text string | Components "(string \<times> string) list"

datatype result = Result response usage cost "string option"

datatype result_entry =
  QAEntry string string response
| QARawEntry string string "(string \<times> response) list"
| SummarizationEntry string response string "(string \<times> string) list option"

text \<open>
  The result document. The eight configuration keys of its metadata are the fields of
  the \<open>ExperimentConfig\<close>, kept together as \<open>config\<close>; the timestamp is left out. \<open>analysis\<close> is a dictionary with at most one key.
\<close>

record metadata =
  config :: experiment_config
  similarity_threshold :: real
  total_items :: nat
  total_usage :: usage
  total_cost :: cost
  errors :: "string list"

record output_data =
  metadata :: metadata
  analysis :: "(string \<times> result_entry list) list"

text \<open>
  What \<open>run_experiment\<close> leaves behind when it returns: the path it returns, the document
  written there, and the effects.
\<close>

record run =
  result_path :: string
  document :: output_data
  effects :: effects

subsection \<open>Clients and single questions\<close>

text \<open>
  \<open>create_llm_client\<close> builds the client for \<open>experiment.llm_type.lower()\<close> and raises
  \<open>ValueError\<close> for any other type.
\<close>

definition create_llm_client :: "backends \<Rightarrow> experiment_config \<Rightarrow> py_error + client" where
  "create_llm_client world experiment =
     (if lower (llm_type experiment) = ''claude'' then
        Inr (ClaudeClient (get_completion_with_usage world))
      else if lower (llm_type experiment) = ''lemonade'' then
        Inr (LemonadeClient (completions world))
      else Inl (ValueError (''Unsupported LLM type: '' @ llm_type experiment)))"

definition question_prompt :: "string \<Rightarrow> string \<Rightarrow> string" where
  "question_prompt sys_prompt question =
     sys_prompt @ nl @ nl @ ''Question: '' @ question @ nl @ nl @ ''Answer:''"

definition process_question_claude ::
  "(nat \<Rightarrow> string \<Rightarrow> response_data outcome) \<Rightarrow> string \<Rightarrow> string \<Rightarrow> effects \<Rightarrow> result \<times> effects" where
  "process_question_claude api question sys_prompt st =
     (case call api (question_prompt sys_prompt question) st of
        (Returns (ResponseData content usage cost), st') \<Rightarrow>
          (Result (Text (strip content)) usage cost None, st')
      | (Raises e, st') \<Rightarrow>
          (Result (Text (''ERROR: '' @ e)) zero_usage zero_cost (Some e),
           log_error (''Error processing question with Claude: '' @ e) st'))"

definition process_question_lemonade ::
  "(nat \<Rightarrow> string \<Rightarrow> choices outcome) \<Rightarrow> string \<Rightarrow> string \<Rightarrow> effects \<Rightarrow> result \<times> effects" where
  "process_question_lemonade api question sys_prompt st =
     (case call api (question_prompt sys_prompt question) st of
        (Returns response_data, st') \<Rightarrow>
          (Result (Text (strip (choices_text response_data))) zero_usage zero_cost None, st')
      | (Raises e, st') \<Rightarrow>
          (Result (Text (''ERROR: '' @ e)) zero_usage zero_cost (Some e),
           log_error (''Error processing question with Lemonade: '' @ e) st'))"

subsection \<open>Summarization: one call for each component\<close>

definition get_summary_prompts :: "string \<Rightarrow> (string \<times> string) list" where
  "get_summary_prompts base_system_prompt =
     [(''executive_summary'', base_system_prompt @ nl @ nl @
         ''Provide a brief executive summary (2-3 sentences) of the key outcomes and decisions from this transcript:''),
      (''detailed_summary'', base_system_prompt @ nl @ nl @
         ''Provide a detailed summary of the transcript, covering all major topics, discussions, and outcomes in paragraph form:''),
      (''action_items'', base_system_prompt @ nl @ nl @
         ''List the specific action items that were assigned during this meeting. Include who is responsible for each item when mentioned. Provide as a simple list:''),
      (''key_decisions'', base_system_prompt @ nl @ nl @
         ''List the key decisions that were made during this meeting. Focus on concrete decisions and outcomes. Provide as a simple list:''),
      (''participants'', base_system_prompt @ nl @ nl @
         ''List the participants mentioned in this transcript. Include their roles or titles when available. Provide as a simple list:''),
      (''topics_discussed'', base_system_prompt @ nl @ nl @
         ''List the main topics and subjects that were discussed in this meeting. Provide as a simple list:'')]"

definition full_prompt :: "string \<Rightarrow> string \<Rightarrow> string" where
  "full_prompt prompt_template transcript =
     prompt_template @ nl @ nl @ ''Transcript:'' @ nl @ transcript @ nl @ nl @ ''Response:''"

text \<open>
  The loops over \<open>summary_prompts.items()\<close>, with the accumulators
  \<open>(results, total_usage, total_cost, errors)\<close>. The local backend reports no usage.
\<close>

fun summarize_claude ::
  "(nat \<Rightarrow> string \<Rightarrow> response_data outcome) \<Rightarrow> string \<Rightarrow> (string \<times> string) list
     \<Rightarrow> (string \<times> string) list \<times> usage \<times> cost \<times> string list \<Rightarrow> effects
     \<Rightarrow> ((string \<times> string) list \<times> usage \<times> cost \<times> string list) \<times> effects" where
  "summarize_claude api transcript [] acc st = (acc, st)"
| "summarize_claude api transcript ((component, prompt_template) # ps)
       (results, tot_usage, tot_cost, errs) st =
     (case call api (full_prompt prompt_template transcript) st of
        (Returns (ResponseData content usage cost), st') \<Rightarrow>
          summarize_claude api transcript ps
            (results @ [(component, strip content)],
             accumulate tot_usage usage, accumulate tot_cost cost, errs) st'
      | (Raises e, st') \<Rightarrow>
          summarize_claude api transcript ps
            (results @ [(component, ''ERROR: '' @ e)],
             tot_usage, tot_cost, errs @ [component @ '': '' @ e])
            (log_error (''Error processing '' @ component @ '' with Claude: '' @ e) st'))"

fun summarize_lemonade ::
  "(nat \<Rightarrow> string \<Rightarrow> choices outcome) \<Rightarrow> string \<Rightarrow> (string \<times> string) list
     \<Rightarrow> (string \<times> string) list \<times> usage \<times> cost \<times> string list \<Rightarrow> effects
     \<Rightarrow> ((string \<times> string) list \<times> usage \<times> cost \<times> string list) \<times> effects" where
  "summarize_lemonade api transcript [] acc st = (acc, st)"
| "summarize_lemonade api transcript ((component, prompt_template) # ps)
       (results, tot_usage, tot_cost, errs) st =
     (case call api (full_prompt prompt_template transcript) st of
        (Returns response_data, st') \<Rightarrow>
          summarize_lemonade api transcript ps
            (results @ [(component, strip (choices_text response_data))],
             tot_usage, tot_cost, errs) st'
      | (Raises e, st') \<Rightarrow>
          summarize_lemonade api transcript ps
            (results @ [(component, ''ERROR: '' @ e)],
             tot_usage, tot_cost, errs @ [component @ '': '' @ e])
            (log_error (''Error processing '' @ component @ '' with Lemonade: '' @ e) st'))"

text \<open>
  The dictionary returned after the loop; its error is
  \<open>"; ".join(errors) if errors else None\<close>. The outer \<open>except\<close> of the two functions
  guards only the building of the prompts and a log line, which do not raise.
\<close>

definition summarization_result ::
  "(string \<times> string) list \<times> usage \<times> cost \<times> string list \<Rightarrow> result" where
  "summarization_result acc =
     (case acc of (results, tot_usage, tot_cost, errs) \<Rightarrow>
        Result (Components results) tot_usage tot_cost
          (if errs = [] then None else Some (join ''; '' errs)))"

definition process_summarization_claude ::
  "(nat \<Rightarrow> string \<Rightarrow> response_data outcome) \<Rightarrow> string \<Rightarrow> string \<Rightarrow> effects \<Rightarrow> result \<times> effects" where
  "process_summarization_claude api transcript sys_prompt st =
     (case summarize_claude api transcript (get_summary_prompts sys_prompt)
             ([], zero_usage, zero_cost, []) st of
        (acc, st') \<Rightarrow> (summarization_result acc, st'))"

definition process_summarization_lemonade ::
  "(nat \<Rightarrow> string \<Rightarrow> choices outcome) \<Rightarrow> string \<Rightarrow> string \<Rightarrow> effects \<Rightarrow> result \<times> effects" where
  "process_summarization_lemonade api transcript sys_prompt st =
     (case summarize_lemonade api transcript (get_summary_prompts sys_prompt)
             ([], zero_usage, zero_cost, []) st of
        (acc, st') \<Rightarrow> (summarization_result acc, st'))"

subsection \<open>Questions over a raw transcript\<close>

definition context_prompt :: "string \<Rightarrow> string \<Rightarrow> string \<Rightarrow> string" where
  "context_prompt sys_prompt transcript query =
     sys_prompt @ nl @ nl @ ''Transcript:'' @ nl @ transcript @ nl @ nl @
     ''Question: '' @ query @ nl @ nl @ ''Answer:''"

text \<open>
  One query of a \<open>qa_raw\<close> item: the dictionary \<open>query_result\<close>. It starts with zero
  usage and no error; a hosted call that returns replaces it, a call that raises sets its
  response and its error.
\<close>

definition query_claude ::
  "(nat \<Rightarrow> string \<Rightarrow> response_data outcome) \<Rightarrow> string \<Rightarrow> effects \<Rightarrow> result \<times> effects" where
  "query_claude api prompt st =
     (case call api prompt st of
        (Returns (ResponseData content usage cost), st') \<Rightarrow>
          (Result (Text (strip content)) usage cost None, st')
      | (Raises e, st') \<Rightarrow>
          (Result (Text (''ERROR: '' @ e)) zero_usage zero_cost (Some e),
           log_error (''Error processing QA with Claude: '' @ e) st'))"

definition query_lemonade ::
  "(nat \<Rightarrow> string \<Rightarrow> choices outcome) \<Rightarrow> string \<Rightarrow> effects \<Rightarrow> result \<times> effects" where
  "query_lemonade api prompt st =
     (case call api prompt st of
        (Returns response_data, st') \<Rightarrow>
          (Result (Text (strip (choices_text response_data))) zero_usage zero_cost None, st')
      | (Raises e, st') \<Rightarrow>
          (Result (Text (''ERROR: '' @ e)) zero_usage zero_cost (Some e),
           log_error (''Error processing QA with Lemonade: '' @ e) st'))"

text \<open>
  Folding \<open>query_result["error"]\<close> into \<open>total_result["error"]\<close>: an error that is
  \<open>None\<close> or the empty string is falsy and leaves the total as it is.
\<close>

definition add_error :: "string option \<Rightarrow> string option \<Rightarrow> string option" where
  "add_error total_error error =
     (case error of
        None \<Rightarrow> total_error
      | Some e \<Rightarrow>
          if e = [] then total_error
          else (case total_error of
                  None \<Rightarrow> Some e
                | Some t \<Rightarrow> if t = [] then Some e else Some (t @ ''; '' @ e)))"

text \<open>
  The loop over \<open>data_item["queries"]\<close>, with the accumulators \<open>qa_results\<close> and the
  usage, cost and error of \<open>total_result\<close>.
\<close>

fun answer_queries ::
  "client \<Rightarrow> string \<Rightarrow> string \<Rightarrow> string list
     \<Rightarrow> (string \<times> response) list \<times> usage \<times> cost \<times> string option \<Rightarrow> effects
     \<Rightarrow> ((string \<times> response) list \<times> usage \<times> cost \<times> string option) \<times> effects" where
  "answer_queries client sys_prompt transcript [] acc st = (acc, st)"
| "answer_queries client sys_prompt transcript (query # queries)
       (qa_results, tot_usage, tot_cost, total_error) st =
     (case (case client of
              ClaudeClient api \<Rightarrow> query_claude api (context_prompt sys_prompt transcript query) st
            | LemonadeClient api \<Rightarrow> query_lemonade api (context_prompt sys_prompt transcript query) st) of
        (Result response usage cost error, st') \<Rightarrow>
          answer_queries client sys_prompt transcript queries
            (qa_results @ [(query, response)],
             accumulate tot_usage usage, accumulate tot_cost cost,
             add_error total_error error) st')"

subsection \<open>\<open>run_experiment\<close>\<close>

text \<open>
  In the definitions of this section the local variables \<open>system_prompt\<close>,
  \<open>total_usage\<close>, \<open>total_cost\<close> and \<open>errors\<close> of the source are written
  \<open>sys_prompt\<close>, \<open>tot_usage\<close>, \<open>tot_cost\<close> and \<open>errs\<close>: the source's names are the
  fields of the records.

  \<open>data_item["transcript"][:500] + "..."\<close> when the transcript is longer than 500.
\<close>

definition excerpt :: "string \<Rightarrow> string" where
  "excerpt transcript =
     (if length transcript > 500 then take 500 transcript @ ''...'' else transcript)"

text \<open>
  The body of the loop over the items, up to the accumulation: the strategy chosen by
  the type of the item and the kind of the client, giving the \<open>result\<close> and the
  \<open>result_entry\<close>. The source tests \<open>experiment.llm_type.lower()\<close> again at each
  dispatch; \<open>create_llm_client\<close> has raised for every type but the two, so the test is
  the kind of the client it returned. For an item of another type the source logs an
  error and goes on with the next item (\<open>continue\<close>): there is no result, written
  \<open>None\<close>.
\<close>

definition process_item ::
  "client \<Rightarrow> experiment_config \<Rightarrow> data_item \<Rightarrow> effects \<Rightarrow> (result \<times> result_entry) option \<times> effects" where
  "process_item client experiment data_item st =
     (case data_item of
        QA query ground_truth \<Rightarrow>
          (case (case client of
                   ClaudeClient api \<Rightarrow>
                     process_question_claude api query (system_prompt experiment) st
                 | LemonadeClient api \<Rightarrow>
                     process_question_lemonade api query (system_prompt experiment) st) of
             (Result response usage cost error, st') \<Rightarrow>
               (Some (Result response usage cost error, QAEntry query ground_truth response), st'))
      | QARaw transcript source_file queries \<Rightarrow>
          (case answer_queries client (system_prompt experiment) transcript queries
                  ([], zero_usage, zero_cost, None) st of
             ((qa_results, tot_usage, tot_cost, total_error), st') \<Rightarrow>
               (Some (Result (Text '''') tot_usage tot_cost total_error,
                      QARawEntry (excerpt transcript) source_file qa_results),
                st'))
      | Summarization transcript source_file groundtruth_summaries \<Rightarrow>
          (case (case client of
                   ClaudeClient api \<Rightarrow>
                     process_summarization_claude api transcript (system_prompt experiment) st
                 | LemonadeClient api \<Rightarrow>
                     process_summarization_lemonade api transcript (system_prompt experiment) st) of
             (Result generated_summaries usage cost error, st') \<Rightarrow>
               (Some (Result generated_summaries usage cost error,
                      SummarizationEntry (excerpt transcript) generated_summaries source_file
                        groundtruth_summaries),
                st'))
      | Other data_type \<Rightarrow>
          (None, log_error (''Unsupported data type: '' @ data_type) st))"

text \<open>
  The loop \<open>for i, data_item in enumerate(data_items)\<close> with the accumulators
  \<open>(results, total_usage, total_cost, errors)\<close>. An error that is \<open>None\<close> or the empty
  string is falsy and adds nothing to \<open>errors\<close>.
\<close>

fun run_items ::
  "client \<Rightarrow> experiment_config \<Rightarrow> nat \<Rightarrow> data_item list
     \<Rightarrow> result_entry list \<times> usage \<times> cost \<times> string list \<Rightarrow> effects
     \<Rightarrow> (result_entry list \<times> usage \<times> cost \<times> string list) \<times> effects" where
  "run_items client experiment i [] acc st = (acc, st)"
| "run_items client experiment i (data_item # rest) (results, tot_usage, tot_cost, errs) st =
     (case process_item client experiment data_item st of
        (None, st') \<Rightarrow>
          run_items client experiment (Suc i) rest (results, tot_usage, tot_cost, errs) st'
      | (Some (Result response usage cost error, result_entry), st') \<Rightarrow>
          run_items client experiment (Suc i) rest
            (results @ [result_entry],
             accumulate tot_usage usage,
             accumulate tot_cost cost,
             (case error of
                None \<Rightarrow> errs
              | Some e \<Rightarrow>
                  if e = [] then errs
                  else errs @ [''Item '' @ str_nat (Suc i) @ '': '' @ e]))
            st')"

text \<open>
  The file name: the characters of the experiment's name that are alphanumeric, a space,
  a hyphen or an underscore, stripped on the right, spaces turned into underscores.
\<close>

definition result_filename :: "string \<Rightarrow> string" where
  "result_filename experiment_name =
     map (\<lambda>c. if c = CHR '' '' then CHR ''_'' else c)
       (rstrip (filter (\<lambda>c. isalnum c \<or> c \<in> set '' -_'') experiment_name))
     @ ''.experiment.json''"

text \<open>
  The key of \<open>analysis\<close>: raw-transcript results are told from the others by the first
  result entry.
\<close>

definition analysis_of :: "experiment_config \<Rightarrow> result_entry list \<Rightarrow> (string \<times> result_entry list) list" where
  "analysis_of experiment results =
     (if experiment_type experiment = ''qa'' then
        (case results of
           QARawEntry transcript source_file qa_results # rest \<Rightarrow> [(''transcript_qa_results'', results)]
         | _ \<Rightarrow> [(''qa_results'', results)])
      else if experiment_type experiment = ''summarization'' then
        [(''summarization_results'', results)]
      else [])"

text \<open>
  \<open>run_experiment\<close>. Writing the file is taken to succeed; the only error left is the
  one of \<open>create_llm_client\<close>, raised before any item is processed. The delays between
  the calls are not modelled. The path is written \<open>output_dir/filename\<close>; what
  \<open>pathlib\<close> does to the directory part (a trailing slash, an empty directory) is not
  modelled, and no property below reads the path.
\<close>

definition run_experiment :: "backends \<Rightarrow> experiment_config \<Rightarrow> data_item list \<Rightarrow> string \<Rightarrow> py_error + run" where
  "run_experiment world experiment data_items output_dir =
     (case create_llm_client world experiment of
        Inl e \<Rightarrow> Inl e
      | Inr client \<Rightarrow>
          (case run_items client experiment 0 data_items ([], zero_usage, zero_cost, [])
                  \<lparr> calls = 0, error_log = [] \<rparr> of
             ((results, tot_usage, tot_cost, errs), st) \<Rightarrow>
               Inr \<lparr> result_path = output_dir @ ''/'' @ result_filename (name experiment),
                     document =
                       \<lparr> metadata =
                           \<lparr> config = experiment,
                             similarity_threshold = 0.7,
                             total_items = length data_items,
                             total_usage = tot_usage,
                             total_cost = tot_cost,
                             errors = errs \<rparr>,
                         analysis = analysis_of experiment results \<rparr>,
                     effects = st \<rparr>))"

subsection \<open>Notions used to state the properties of the runner\<close>

text \<open>A backend on which every call raises, with a message that is not empty.\<close>

definition always_raises :: "(nat \<Rightarrow> string \<Rightarrow> 'a outcome) \<Rightarrow> bool" where
  "always_raises api = (\<forall>n prompt. \<exists>e. e \<noteq> [] \<and> api n prompt = Raises e)"

fun client_always_raises :: "client \<Rightarrow> bool" where
  "client_always_raises (ClaudeClient api) = always_raises api"
| "client_always_raises (LemonadeClient api) = always_raises api"

text \<open>
  The number of backend calls an item asks for: one for a question, one for each query
  of a raw transcript, one for each of the six summary components, none for an item of
  another type.
\<close>

fun calls_of :: "data_item \<Rightarrow> nat" where
  "calls_of (QA query ground_truth) = 1"
| "calls_of (QARaw transcript source_file queries) = length queries"
| "calls_of (Summarization transcript source_file groundtruth_summaries) = 6"
| "calls_of (Other data_type) = 0"

fun supported :: "data_item \<Rightarrow> bool" where
  "supported (Other data_type) = False"
| "supported data_item = True"

text \<open>Concrete inputs: a world in which every call fails, and two experiments.\<close>

definition failing_world :: backends where
  "failing_world =
     \<lparr> get_completion_with_usage = (\<lambda>n prompt. Raises ''overloaded''),
       completions = (\<lambda>n prompt. Raises ''connection refused'') \<rparr>"

definition claude_summarization :: experiment_config where
  "claude_summarization =
     \<lparr> name = ''Claude Summarization'', llm_type = ''claude'', model = ''claude-sonnet-4-20250514'',
       system_prompt = ''You are an expert meeting analyst.'', experiment_type = ''summarization'',
       max_tokens = 512, temperature = 0.1, parameters = [] \<rparr>"

definition lemonade_qa :: experiment_config where
  "lemonade_qa =
     \<lparr> name = ''Lemonade QA'', llm_type = ''Lemonade'', model = ''llama3.2:3b'',
       system_prompt = ''Answer questions about meeting transcripts.'', experiment_type = ''qa'',
       max_tokens = 512, temperature = 0.1, parameters = [(''host'', ''127.0.0.1'')] \<rparr>"

section \<open>The summary report: \<open>RagEvaluator.generate_summary_report\<close> (eval.py)\<close>

text \<open>
  \<open>generate_summary_report\<close> reads the evaluation files of a directory into the list
  \<open>models_data\<close>, in the order in which the directory lists them, skipping a file it
  cannot read. The model starts from that list. Of a \<open>model_info\<close> it keeps the keys the
  ranking reads: the name, the pass rate (\<open>metrics.get("pass_rate", 0)\<close>, so 0 for an
  evaluation without one, as the summarization evaluations are) and the questions. Of a
  question it keeps its \<open>analysis\<close> dictionary (empty when absent), the values as text;
  the other keys of a question only feed a test of \<open>_detect_evaluation_type\<close> whose two
  branches both return \<open>rag\<close>.
\<close>

type_synonym question = "(string \<times> string) list"

record model_info =
  model_name :: string
  pass_rate :: real
  per_question :: "question list"

definition summarization_keys :: "string list" where
  "summarization_keys =
     [''executive_summary_quality'', ''detail_completeness'', ''action_items_structure'',
      ''key_decisions_clarity'', ''participant_information'', ''topic_organization'']"

definition detect_evaluation_type :: "model_info list \<Rightarrow> string" where
  "detect_evaluation_type models_data =
     (case models_data of
        [] \<Rightarrow> ''unknown''
      | first_model # ms \<Rightarrow>
          (case per_question first_model of
             [] \<Rightarrow> ''unknown''
           | first_question # qs \<Rightarrow>
               if list_ex (\<lambda>key. map_of first_question key \<noteq> None) summarization_keys
               then ''summarization''
               else ''rag''))"

text \<open>\<open>analysis.get("overall_quality", "")\<close>\<close>

definition overall_quality :: "question \<Rightarrow> string" where
  "overall_quality q = (case map_of q ''overall_quality'' of None \<Rightarrow> '''' | Some v \<Rightarrow> v)"

text \<open>
  The loop over the questions of a model, with the four counters
  \<open>(excellent_count, good_count, fair_count, poor_count)\<close>.
\<close>

fun count_ratings :: "question list \<Rightarrow> nat \<times> nat \<times> nat \<times> nat \<Rightarrow> nat \<times> nat \<times> nat \<times> nat" where
  "count_ratings [] counts = counts"
| "count_ratings (q # qs) (excellent_count, good_count, fair_count, poor_count) =
     (if overall_quality q = ''excellent'' then
        count_ratings qs (excellent_count + 1, good_count, fair_count, poor_count)
      else if overall_quality q = ''good'' then
        count_ratings qs (excellent_count, good_count + 1, fair_count, poor_count)
      else if overall_quality q = ''fair'' then
        count_ratings qs (excellent_count, good_count, fair_count + 1, poor_count)
      else if overall_quality q = ''poor'' then
        count_ratings qs (excellent_count, good_count, fair_count, poor_count + 1)
      else count_ratings qs (excellent_count, good_count, fair_count, poor_count))"

text \<open>
  The ranking of a report is its line \<open>Performance ranking: A (..) > B (..) > ...\<close>,
  kept here as the list of the names with the numbers printed beside them, in the order
  of the line. The rest of the markdown, and the printing of the numbers, are not
  modelled.

  In \<open>_generate_summarization_report\<close> the number is the weighted quality score, and a
  model without a rated summary is left out of the line.
\<close>

definition quality_score :: "model_info \<Rightarrow> real option" where
  "quality_score m =
     (case count_ratings (per_question m) (0, 0, 0, 0) of
        (excellent_count, good_count, fair_count, poor_count) \<Rightarrow>
          (let total_summaries = excellent_count + good_count + fair_count + poor_count in
           if total_summaries > 0 then
             Some (real (excellent_count * 4 + good_count * 3 + fair_count * 2 + poor_count * 1)
                     / real total_summaries)
           else None))"

fun summarization_ranking :: "model_info list \<Rightarrow> (string \<times> real) list" where
  "summarization_ranking [] = []"
| "summarization_ranking (m # models_data) =
     (case quality_score m of
        None \<Rightarrow> summarization_ranking models_data
      | Some score \<Rightarrow> (model_name m, score) # summarization_ranking models_data)"

text \<open>In \<open>_generate_markdown_report\<close> the number is the pass rate.\<close>

definition markdown_ranking :: "model_info list \<Rightarrow> (string \<times> real) list" where
  "markdown_ranking models_data = map (\<lambda>m. (model_name m, pass_rate m)) models_data"

record summary =
  models_analyzed :: nat
  summary_data :: "model_info list"
  ranking :: "(string \<times> real) list"

text \<open>
  \<open>models_data.sort(key=lambda x: x["pass_rate"], reverse=True)\<close> is a stable sort
  with every comparison reversed: the stable sort on the negated key.
\<close>

definition generate_summary_report :: "model_info list \<Rightarrow> py_error + summary" where
  "generate_summary_report models_data =
     (if models_data = [] then Inl (ValueError ''No valid evaluation data found'')
      else
        (let sorted_data = sort_key (\<lambda>x. - pass_rate x) models_data;
             evaluation_type = detect_evaluation_type sorted_data
         in Inr \<lparr> models_analyzed = length sorted_data,
                  summary_data = sorted_data,
                  ranking = (if evaluation_type = ''summarization''
                             then summarization_ranking sorted_data
                             else markdown_ranking sorted_data) \<rparr>))"

text \<open>
  The descending order of a ranking, and two summarization evaluations as the
  summarization analysis writes them: rubric entries and an overall quality for each
  summary, and no pass rate.
\<close>

definition descending :: "(string \<times> real) list \<Rightarrow> bool" where
  "descending r = sorted_wrt (\<lambda>a b. a \<ge> b) (map snd r)"

definition eval_a :: model_info where
  "eval_a = \<lparr> model_name = ''A'', pass_rate = 0,
              per_question = [[(''executive_summary_quality'', ''poor''), (''overall_quality'', ''poor'')]] \<rparr>"

definition eval_b :: model_info where
  "eval_b = \<lparr> model_name = ''B'', pass_rate = 0,
              per_question = [[(''executive_summary_quality'', ''excellent''),
                               (''overall_quality'', ''excellent'')]] \<rparr>"

definition rag_low :: model_info where
  "rag_low = \<lparr> model_name = ''low'', pass_rate = 0.25, per_question = [[(''correctness'', ''fair'')]] \<rparr>"

definition rag_high :: model_info where
  "rag_high = \<lparr> model_name = ''high'', pass_rate = 0.75, per_question = [[(''correctness'', ''good'')]] \<rparr>"

section \<open>The similarity score: \<open>RagEvaluator.calculate_similarity\<close> (eval.py)\<close>

text \<open>
  The function guards and wraps a computation of scikit-learn: \<open>TfidfVectorizer\<close>
  fitted on the two texts, then \<open>cosine_similarity\<close> of the two rows, in floating
  point. That computation is outside the repository; it is the parameter \<open>tfidf_cosine\<close>,
  whose outcome is the similarity or the exception raised inside the \<open>try\<close> block. The
  warning written in the \<open>except\<close> branch is not modelled.
\<close>

definition calculate_similarity :: "(string \<Rightarrow> string \<Rightarrow> real outcome) \<Rightarrow> string \<Rightarrow> string \<Rightarrow> real" where
  "calculate_similarity tfidf_cosine text1 text2 =
     (if strip text1 = [] \<or> strip text2 = [] then 0
      else (case tfidf_cosine text1 text2 of
              Returns similarity_value \<Rightarrow> similarity_value
            | Raises e \<Rightarrow> 0))"

text \<open>
  The double that the library returns for the two identical texts \<open>hello world\<close>. Both
  rows of the TF-IDF matrix are \<open>[0.7071067811865475, 0.7071067811865475]\<close>;
  \<open>cosine_similarity\<close> normalises them again, to \<open>0.7071067811865476\<close>, and their dot
  product is \<open>1.0000000000000002\<close>, one unit in the last place above 1.
\<close>

definition score_hello_world :: real where
  "score_hello_world = 1 + 1 / 2 ^ 52"

section \<open>Properties of \<open>determine_pass_fail\<close>\<close>

text \<open>The entry \<open>ratings["correctness"]\<close> is the lowered rating of the rubric's entry.\<close>

lemma correctness_rating:
  "map_of (extract_ratings ca criteria_names) ''correctness'' =
     map_option get_rating (map_of ca ''correctness'')"
  by (simp add: criteria_names_def split: option.splits)

text \<open>
  On a rubric of this type the only operation of the function that can raise is the
  division, and the test \<open>max_possible > 0\<close> keeps it away from a zero divisor.
\<close>

lemma normalized_score_returns: "\<exists>score. normalized_score ratings = Inr score"
  by (auto simp: normalized_score_def truediv_def split: prod.splits)

lemma determine_pass_fail_returns:
  "\<exists>v. determine_pass_fail similarity_score threshold claude_analysis = Inr v"
proof (cases claude_analysis)
  case None
  then show ?thesis by (simp add: determine_pass_fail_def)
next
  case (Some ca)
  obtain score where "normalized_score (extract_ratings ca criteria_names) = Inr score"
    using normalized_score_returns by blast
  with Some show ?thesis by (simp add: determine_pass_fail_def Let_def)
qed

lemma get_rating_literal:
  "get_rating [(''rating'', ''poor'')] = ''poor''"
  "get_rating [(''rating'', ''good'')] = ''good''"
  "get_rating [(''rating'', ''terrible'')] = ''terrible''"
  by (simp_all add: get_rating_def lower_def lower_char_def)

text \<open>
  C2. A rubric whose correctness rating is \<open>poor\<close> gives a verdict that fails, whatever
  the similarity and the threshold are, and whatever the other criteria say. The rating
  is read as the source reads it, through \<open>.get("rating", "").lower()\<close>.
\<close>

theorem poor_correctness_fails:
  assumes "map_of ca ''correctness'' = Some d" and "get_rating d = ''poor''"
  shows "\<exists>v. determine_pass_fail similarity_score threshold (Some ca) = Inr v \<and> is_pass v = False"
proof -
  from assms have "ca \<noteq> []" by auto
  moreover have "map_of (extract_ratings ca criteria_names) ''correctness'' = Some ''poor''"
    using assms by (simp add: correctness_rating)
  moreover obtain score where "normalized_score (extract_ratings ca criteria_names) = Inr score"
    using normalized_score_returns by blast
  ultimately show ?thesis
    by (simp add: determine_pass_fail_def Let_def)
qed

text \<open>The case of the specification: similarity 0.9 against the threshold 0.7.\<close>

theorem poor_correctness_fails_witness:
  "map_of poor_correctness ''correctness'' = Some [(''rating'', ''poor'')]
   \<and> get_rating [(''rating'', ''poor'')] = ''poor''
   \<and> (0.9::real) \<ge> 0.7
   \<and> (\<exists>v. determine_pass_fail 0.9 0.7 (Some poor_correctness) = Inr v \<and> is_pass v = False)"
  using poor_correctness_fails [of poor_correctness "[(''rating'', ''poor'')]" "0.9" "0.7"]
  by (simp add: poor_correctness_def get_rating_literal)

text \<open>The ratings extracted when all four criteria are present, and their score when all are good.\<close>

lemma extract_all_present:
  assumes "map_of ca ''correctness'' = Some d1" "map_of ca ''completeness'' = Some d2"
          "map_of ca ''conciseness'' = Some d3" "map_of ca ''relevance'' = Some d4"
  shows "extract_ratings ca criteria_names =
           [(''correctness'', get_rating d1), (''completeness'', get_rating d2),
            (''conciseness'', get_rating d3), (''relevance'', get_rating d4)]"
  using assms by (simp add: criteria_names_def)

lemma normalized_all_good:
  "normalized_score [(''correctness'', ''good''), (''completeness'', ''good''),
            (''conciseness'', ''good''), (''relevance'', ''good'')] = Inr (3/4)"
  by (simp add: normalized_score_def weights_def rating_score_def score_map_def truediv_def Let_def)

text \<open>
  C3. When the four criteria are all rated \<open>good\<close>, the normalized qualitative score is
  exactly 0.75 (3 of 4 on every weight), the qualitative check holds, and the verdict
  passes whatever the similarity is.
\<close>

theorem all_good_passes:
  assumes "map_of ca ''correctness'' = Some d1" "map_of ca ''completeness'' = Some d2"
          "map_of ca ''conciseness'' = Some d3" "map_of ca ''relevance'' = Some d4"
      and "get_rating d1 = ''good''" "get_rating d2 = ''good''"
          "get_rating d3 = ''good''" "get_rating d4 = ''good''"
  shows "normalized_score (extract_ratings ca criteria_names) = Inr 0.75
         \<and> qualitative_pass 0.75 (extract_ratings ca criteria_names)
         \<and> (\<exists>v. determine_pass_fail similarity_score threshold (Some ca) = Inr v
                \<and> map_option qualitative_normalized (scores v) = Some 0.75
                \<and> is_pass v = True)"
proof -
  let ?r = "[(''correctness'', ''good''), (''completeness'', ''good''),
            (''conciseness'', ''good''), (''relevance'', ''good'')]"
  have r: "extract_ratings ca criteria_names = ?r"
    using assms by (simp add: extract_all_present)
  have n: "normalized_score ?r = Inr (3/4)" by (rule normalized_all_good)
  have q: "qualitative_pass (3/4) ?r"
    by (simp add: qualitative_pass_def correctness_acceptable_def)
  from assms(1) have ne: "ca \<noteq> []" by auto
  show ?thesis
    using ne q by (simp add: r n determine_pass_fail_def Let_def)
qed

text \<open>The case of the specification: similarity 0.5 is below the threshold 0.7.\<close>

theorem all_good_passes_witness:
  "\<not> ((0.5::real) \<ge> 0.7)
   \<and> normalized_score (extract_ratings all_good criteria_names) = Inr 0.75
   \<and> (\<exists>v. determine_pass_fail 0.5 0.7 (Some all_good) = Inr v
          \<and> map_option qualitative_normalized (scores v) = Some 0.75
          \<and> is_pass v = True)"
  using all_good_passes [of all_good "[(''rating'', ''good'')]" "[(''rating'', ''good'')]"
     "[(''rating'', ''good'')]" "[(''rating'', ''good'')]" "0.5" "0.7"]
  by (simp add: all_good_def get_rating_literal)

text \<open>
  C4. Without a rubric (\<open>None\<close> or the empty dictionary) the verdict passes exactly when
  the similarity reaches the threshold, and its criteria field is \<open>similarity_only\<close>.
\<close>

theorem no_rubric_similarity_only:
  "(\<exists>v. determine_pass_fail similarity_score threshold None = Inr v
        \<and> is_pass v = (similarity_score \<ge> threshold) \<and> criteria v = ''similarity_only'')
   \<and> (\<exists>v. determine_pass_fail similarity_score threshold (Some []) = Inr v
        \<and> is_pass v = (similarity_score \<ge> threshold) \<and> criteria v = ''similarity_only'')"
  by (simp add: determine_pass_fail_def similarity_only_def Let_def)

theorem no_rubric_similarity_only_witness:
  "(\<exists>v. determine_pass_fail 0.9 0.7 None = Inr v \<and> is_pass v = True
        \<and> criteria v = ''similarity_only'')
   \<and> (\<exists>v. determine_pass_fail 0.5 0.7 (Some []) = Inr v \<and> is_pass v = False
        \<and> criteria v = ''similarity_only'')"
  using no_rubric_similarity_only [of "0.9" "0.7"] no_rubric_similarity_only [of "0.5" "0.7"]
  by simp

text \<open>
  C10. A correctness rating stored in \<open>ratings\<close> (the lowered rating) that is none of
  \<open>excellent\<close>, \<open>good\<close>, \<open>fair\<close>, \<open>poor\<close> is scored 1, as \<open>poor\<close> is; it makes the
  qualitative check fail whatever the normalized score is; and it does not fire the
  override, so that the verdict passes exactly when the similarity reaches the threshold.
\<close>

theorem unknown_correctness_rating:
  assumes "map_of ca ''correctness'' = Some d"
      and "get_rating d \<notin> set [''excellent'', ''good'', ''fair'', ''poor'']"
  shows "rating_score (get_rating d) = 1 \<and> rating_score ''poor'' = 1
         \<and> (\<forall>score. \<not> qualitative_pass score (extract_ratings ca criteria_names))
         \<and> (\<exists>v. determine_pass_fail similarity_score threshold (Some ca) = Inr v
                \<and> is_pass v = (similarity_score \<ge> threshold))"
proof -
  from assms(1) have ne: "ca \<noteq> []" by auto
  have c: "map_of (extract_ratings ca criteria_names) ''correctness'' = Some (get_rating d)"
    using assms(1) by (simp add: correctness_rating)
  have q: "\<not> qualitative_pass score (extract_ratings ca criteria_names)" for score
    using assms(2) by (auto simp add: qualitative_pass_def correctness_acceptable_def c)
  obtain score where n: "normalized_score (extract_ratings ca criteria_names) = Inr score"
    using normalized_score_returns by blast
  have "rating_score (get_rating d) = 1"
    using assms(2) by (simp add: rating_score_def score_map_def)
  moreover have "rating_score ''poor'' = 1"
    by (simp add: rating_score_def score_map_def)
  moreover have "\<exists>v. determine_pass_fail similarity_score threshold (Some ca) = Inr v
                \<and> is_pass v = (similarity_score \<ge> threshold)"
    using ne assms(2) q by (simp add: determine_pass_fail_def Let_def n c)
  ultimately show ?thesis using q by blast
qed

theorem unknown_correctness_rating_witness:
  "map_of terrible ''correctness'' = Some [(''rating'', ''terrible'')]
   \<and> get_rating [(''rating'', ''terrible'')] \<notin> set [''excellent'', ''good'', ''fair'', ''poor'']
   \<and> rating_score (get_rating [(''rating'', ''terrible'')]) = 1
   \<and> (\<exists>v. determine_pass_fail 0.9 0.7 (Some terrible) = Inr v \<and> is_pass v = True)"
proof -
  have h1: "map_of terrible ''correctness'' = Some [(''rating'', ''terrible'')]"
    by (simp add: terrible_def)
  have h2: "get_rating [(''rating'', ''terrible'')] \<notin> set [''excellent'', ''good'', ''fair'', ''poor'']"
    by (simp add: get_rating_literal)
  from unknown_correctness_rating [OF h1 h2, of "0.9" "0.7"] h1 h2
  show ?thesis by simp
qed

subsection \<open>The rubric as \<open>json.loads\<close> returns it\<close>

text \<open>
  From the scoring on nothing raises: the only operation that can is the division, and the
  test \<open>max_possible > 0\<close> keeps it away from a zero divisor.
\<close>

lemma comprehensive_returns: "\<exists>v. comprehensive similarity_score threshold ratings = Inr v"
proof -
  obtain score where "normalized_score ratings = Inr score"
    using normalized_score_returns by blast
  then show ?thesis by (simp add: comprehensive_def Let_def)
qed

lemma get_rating_json_readable:
  "readable_entry entry \<Longrightarrow> \<exists>rating. get_rating_json entry = Inr rating"
  by (cases entry) (auto split: option.splits json.splits)

lemma get_rating_json_unreadable:
  "\<not> readable_entry entry \<Longrightarrow> get_rating_json entry = Inl AttributeError"
  by (cases entry) (auto split: option.splits json.splits)

lemma extract_ratings_json_readable:
  "list_all (\<lambda>criterion. case map_of ca criterion of None \<Rightarrow> True | Some entry \<Rightarrow> readable_entry entry) cs
     \<Longrightarrow> \<exists>ratings. extract_ratings_json ca cs = Inr ratings"
proof (induction cs)
  case Nil
  show ?case by simp
next
  case (Cons c cs)
  then obtain ratings where r: "extract_ratings_json ca cs = Inr ratings" by auto
  show ?case
  proof (cases "map_of ca c")
    case None
    with r show ?thesis by simp
  next
    case (Some entry)
    with Cons.prems have "readable_entry entry" by simp
    then obtain rating where "get_rating_json entry = Inr rating"
      using get_rating_json_readable by blast
    with r Some show ?thesis by simp
  qed
qed

lemma extract_ratings_json_unreadable:
  "\<not> list_all (\<lambda>criterion. case map_of ca criterion of None \<Rightarrow> True | Some entry \<Rightarrow> readable_entry entry) cs
     \<Longrightarrow> extract_ratings_json ca cs = Inl AttributeError"
proof (induction cs)
  case Nil
  then show ?case by simp
next
  case (Cons c cs)
  show ?case
  proof (cases "map_of ca c")
    case None
    with Cons show ?thesis by simp
  next
    case (Some entry)
    show ?thesis
    proof (cases "readable_entry entry")
      case False
      with Some show ?thesis by (simp add: get_rating_json_unreadable)
    next
      case True
      then obtain rating where g: "get_rating_json entry = Inr rating"
        using get_rating_json_readable by blast
      from True Some Cons.prems have
        "\<not> list_all (\<lambda>criterion. case map_of ca criterion of None \<Rightarrow> True | Some entry \<Rightarrow> readable_entry entry) cs"
        by simp
      with Cons.IH have "extract_ratings_json ca cs = Inl AttributeError" by simp
      with Some g show ?thesis by simp
    qed
  qed
qed

lemma extract_ratings_json_none:
  "\<forall>c \<in> set cs. map_of ca c = None \<Longrightarrow> extract_ratings_json ca cs = Inr []"
  by (induction cs) simp_all

lemma readable_none:
  "\<forall>c \<in> set criteria_names. map_of ca c = None \<Longrightarrow> readable ca"
  by (simp add: readable_def list_all_iff)

text \<open>
  On a rubric of the first model the two functions agree: the theorems on
  \<open>determine_pass_fail\<close> above are theorems on the dictionaries whose entries are
  dictionaries of strings.
\<close>

lemma map_of_json_of_rubric:
  "map_of (json_of_rubric ca) c = map_option (\<lambda>d. JObject (map (\<lambda>(k, v). (k, JString v)) d)) (map_of ca c)"
  by (induction ca) (auto simp: json_of_rubric_def)

lemma map_of_json_strings:
  "map_of (map (\<lambda>(k, v). (k, JString v)) d) k = map_option JString (map_of d k)"
  by (induction d) auto

lemma get_rating_json_typed:
  "get_rating_json (JObject (map (\<lambda>(k, v). (k, JString v)) d)) = Inr (get_rating d)"
  by (simp add: map_of_json_strings get_rating_def split: option.splits)

lemma extract_ratings_json_typed:
  "extract_ratings_json (json_of_rubric ca) cs = Inr (extract_ratings ca cs)"
proof (induction cs)
  case Nil
  show ?case by simp
next
  case (Cons c cs)
  show ?case
  proof (cases "map_of ca c")
    case None
    with Cons show ?thesis by (simp add: map_of_json_of_rubric)
  next
    case (Some d)
    with Cons show ?thesis
      by (simp add: map_of_json_of_rubric get_rating_json_typed del: get_rating_json.simps)
  qed
qed

lemma determine_pass_fail_json_typed:
  "determine_pass_fail_json similarity_score threshold (map_option json_of_rubric claude_analysis)
     = determine_pass_fail similarity_score threshold claude_analysis"
proof (cases claude_analysis)
  case None
  then show ?thesis by (simp add: determine_pass_fail_json_def determine_pass_fail_def)
next
  case (Some ca)
  have "json_of_rubric ca = [] \<longleftrightarrow> ca = []" by (simp add: json_of_rubric_def)
  with Some show ?thesis
    by (simp add: determine_pass_fail_json_def determine_pass_fail_def extract_ratings_json_typed
          comprehensive_def Let_def)
qed

text \<open>
  C8, as the source has it. The function does not return a verdict on every shape of
  rubric: it returns one exactly when the rubric is readable (the entry of each of the
  four criteria, when there is one, is a dictionary whose rating, when there is one, is a
  string) and raises \<open>AttributeError\<close> on every other rubric. When none of the four
  criteria is present a verdict is always returned: no rating is extracted,
  \<open>max_possible\<close> stays 0, the guard gives the normalized score 0 without dividing, and the
  qualitative check fails; the verdict is the comprehensive one decided by the similarity
  alone, and for the empty rubric, which the function takes for no rubric, the
  similarity-only one.
\<close>

theorem readable_rubric_verdict:
  "(\<exists>v. determine_pass_fail_json similarity_score threshold None = Inr v)
   \<and> ((\<exists>v. determine_pass_fail_json similarity_score threshold (Some ca) = Inr v) \<longleftrightarrow> readable ca)
   \<and> (\<not> readable ca \<longrightarrow>
        determine_pass_fail_json similarity_score threshold (Some ca) = Inl AttributeError)
   \<and> ((\<forall>c \<in> set criteria_names. map_of ca c = None) \<longrightarrow>
        extract_ratings_json ca criteria_names = Inr []
        \<and> fst (snd (weighted_totals [] weights (0, 0, []))) = 0
        \<and> normalized_score [] = Inr 0
        \<and> \<not> qualitative_pass 0 []
        \<and> determine_pass_fail_json similarity_score threshold (Some ca) =
            Inr (if ca = [] then similarity_only (similarity_score \<ge> threshold)
                 else \<lparr> is_pass = (similarity_score \<ge> threshold),
                        pass_fail = (if similarity_score \<ge> threshold then ''pass'' else ''fail''),
                        criteria = ''comprehensive'',
                        scores = Some \<lparr> similarity = similarity_score,
                                        qualitative_normalized = 0,
                                        qualitative_details = [] \<rparr> \<rparr>))"
proof (intro conjI impI)
  show "\<exists>v. determine_pass_fail_json similarity_score threshold None = Inr v"
    by (simp add: determine_pass_fail_json_def)
next
  show "(\<exists>v. determine_pass_fail_json similarity_score threshold (Some ca) = Inr v) \<longleftrightarrow> readable ca"
  proof (cases "readable ca")
    case True
    then obtain ratings where "extract_ratings_json ca criteria_names = Inr ratings"
      using extract_ratings_json_readable unfolding readable_def by blast
    moreover obtain v where "comprehensive similarity_score threshold ratings = Inr v"
      using comprehensive_returns by blast
    ultimately show ?thesis
      using True by (simp add: determine_pass_fail_json_def Let_def)
  next
    case False
    then have e: "extract_ratings_json ca criteria_names = Inl AttributeError"
      using extract_ratings_json_unreadable unfolding readable_def by blast
    from False have "ca \<noteq> []" by (auto simp: readable_def criteria_names_def)
    with e False show ?thesis
      by (simp add: determine_pass_fail_json_def Let_def)
  qed
next
  assume n: "\<not> readable ca"
  then have e: "extract_ratings_json ca criteria_names = Inl AttributeError"
    using extract_ratings_json_unreadable unfolding readable_def by blast
  from n have "ca \<noteq> []" by (auto simp: readable_def criteria_names_def)
  with e show "determine_pass_fail_json similarity_score threshold (Some ca) = Inl AttributeError"
    by (simp add: determine_pass_fail_json_def Let_def)
next
  assume a: "\<forall>c \<in> set criteria_names. map_of ca c = None"
  then show r: "extract_ratings_json ca criteria_names = Inr []"
    by (rule extract_ratings_json_none)
  have w: "weighted_totals [] weights (0, 0, []) = (0, 0, [])"
    by (simp add: weights_def)
  show "fst (snd (weighted_totals [] weights (0, 0, []))) = 0"
    by (simp add: w)
  show n0: "normalized_score [] = Inr 0"
    by (simp add: normalized_score_def w)
  show "\<not> qualitative_pass 0 []"
    by (simp add: qualitative_pass_def)
  show "determine_pass_fail_json similarity_score threshold (Some ca) =
            Inr (if ca = [] then similarity_only (similarity_score \<ge> threshold)
                 else \<lparr> is_pass = (similarity_score \<ge> threshold),
                        pass_fail = (if similarity_score \<ge> threshold then ''pass'' else ''fail''),
                        criteria = ''comprehensive'',
                        scores = Some \<lparr> similarity = similarity_score,
                                        qualitative_normalized = 0,
                                        qualitative_details = [] \<rparr> \<rparr>)"
    by (simp add: determine_pass_fail_json_def comprehensive_def Let_def r n0 w qualitative_pass_def)
qed

text \<open>
  A rubric with an unknown criterion only, the empty rubric, and a rubric whose
  correctness entry is a bare string.
\<close>

theorem readable_rubric_verdict_witness:
  "map_of unknown_criteria ''correctness'' = None \<and> map_of unknown_criteria ''completeness'' = None
   \<and> map_of unknown_criteria ''conciseness'' = None \<and> map_of unknown_criteria ''relevance'' = None
   \<and> readable unknown_criteria
   \<and> \<not> readable bare_rating
   \<and> determine_pass_fail_json 0.9 0.7 (Some bare_rating) = Inl AttributeError
   \<and> determine_pass_fail_json 0.5 0.7 (Some unknown_criteria) =
        Inr \<lparr> is_pass = False, pass_fail = ''fail'', criteria = ''comprehensive'',
              scores = Some \<lparr> similarity = 0.5, qualitative_normalized = 0,
                              qualitative_details = [] \<rparr> \<rparr>
   \<and> determine_pass_fail_json 0.5 0.7 (Some []) = Inr (similarity_only False)"
proof -
  have h: "\<forall>c \<in> set criteria_names. map_of unknown_criteria c = None"
    by (simp add: criteria_names_def unknown_criteria_def)
  have e: "\<forall>c \<in> set criteria_names. map_of ([] :: json_rubric) c = None"
    by simp
  have b: "\<not> readable bare_rating"
    by (simp add: readable_def criteria_names_def bare_rating_def)
  have u: "unknown_criteria \<noteq> []"
    by (simp add: unknown_criteria_def)
  from readable_rubric_verdict [of "0.5" "0.7" unknown_criteria]
       readable_rubric_verdict [of "0.5" "0.7" "[]"]
       readable_rubric_verdict [of "0.9" "0.7" bare_rating] h e b u
  show ?thesis by (simp add: criteria_names_def readable_none)
qed

text \<open>
  C8 as it is stated fails: on \<open>{"correctness": "poor"}\<close> and on
  \<open>{"correctness": {"rating": null, ...}}\<close> the function raises and returns no verdict.
\<close>

theorem unreadable_rubric_counterexample:
  "determine_pass_fail_json 0.9 0.7 (Some bare_rating) = Inl AttributeError
   \<and> determine_pass_fail_json 0.9 0.7 (Some null_rating) = Inl AttributeError
   \<and> \<not> (\<exists>v. determine_pass_fail_json 0.9 0.7 (Some bare_rating) = Inr v)"
  by (simp add: determine_pass_fail_json_def bare_rating_def null_rating_def criteria_names_def)

section \<open>Properties of \<open>run_experiment\<close>\<close>

subsection \<open>A run in which every backend call fails\<close>

text \<open>
  A call that raises leaves the usage and the cost of its dictionary at zero, and adding
  zeros changes no total.
\<close>

lemma accumulate_zero_usage: "accumulate t zero_usage = t"
proof -
  have "(case map_of zero_usage key of None \<Rightarrow> 0 | Some x \<Rightarrow> x) = (0::int)" for key
    by (simp add: zero_usage_def)
  then show ?thesis
    by (simp add: accumulate_def zero_usage_def case_prod_unfold)
qed

lemma accumulate_zero_cost: "accumulate t zero_cost = t"
proof -
  have "(case map_of zero_cost key of None \<Rightarrow> 0 | Some x \<Rightarrow> x) = (0::real)" for key
    by (simp add: zero_cost_def)
  then show ?thesis
    by (simp add: accumulate_def zero_cost_def case_prod_unfold)
qed

lemma join_nonempty: "x \<noteq> [] \<Longrightarrow> join sep (x # xs) \<noteq> []"
  by (cases xs) simp_all

lemma process_question_claude_fails:
  assumes "always_raises api"
  shows "\<exists>e response st'. e \<noteq> [] \<and>
           process_question_claude api q sp st = (Result response zero_usage zero_cost (Some e), st')
           \<and> calls st' = Suc (calls st)"
proof -
  from assms obtain e where "e \<noteq> []" "api (calls st) (question_prompt sp q) = Raises e"
    unfolding always_raises_def by blast
  then show ?thesis
    by (simp add: process_question_claude_def call_def log_error_def)
qed

lemma process_question_lemonade_fails:
  assumes "always_raises api"
  shows "\<exists>e response st'. e \<noteq> [] \<and>
           process_question_lemonade api q sp st = (Result response zero_usage zero_cost (Some e), st')
           \<and> calls st' = Suc (calls st)"
proof -
  from assms obtain e where "e \<noteq> []" "api (calls st) (question_prompt sp q) = Raises e"
    unfolding always_raises_def by blast
  then show ?thesis
    by (simp add: process_question_lemonade_def call_def log_error_def)
qed

lemma summarize_claude_fails:
  assumes "always_raises api"
  shows "\<exists>results' errs' st'.
           summarize_claude api transcript ps (results, tu, tc, errs) st = ((results', tu, tc, errs'), st')
           \<and> length errs' = length errs + length ps
           \<and> ([] \<notin> set errs \<longrightarrow> [] \<notin> set errs')
           \<and> calls st' = calls st + length ps"
proof (induction ps arbitrary: results errs st)
  case Nil
  then show ?case by simp
next
  case (Cons a ps)
  obtain component prompt_template where a: "a = (component, prompt_template)" by (cases a)
  from assms obtain e where e: "api (calls st) (full_prompt prompt_template transcript) = Raises e"
    unfolding always_raises_def by blast
  let ?st = "log_error (''Error processing '' @ component @ '' with Claude: '' @ e) (st\<lparr>calls := Suc (calls st)\<rparr>)"
  from Cons.IH [of "results @ [(component, ''ERROR: '' @ e)]" "errs @ [component @ '': '' @ e]" ?st]
  obtain results' errs' st' where
    "summarize_claude api transcript ps (results @ [(component, ''ERROR: '' @ e)], tu, tc, errs @ [component @ '': '' @ e]) ?st
       = ((results', tu, tc, errs'), st')"
    "length errs' = length (errs @ [component @ '': '' @ e]) + length ps"
    "[] \<notin> set (errs @ [component @ '': '' @ e]) \<longrightarrow> [] \<notin> set errs'"
    "calls st' = calls ?st + length ps"
    by blast
  then show ?case
    using e by (simp add: a call_def log_error_def)
qed

lemma summarize_lemonade_fails:
  assumes "always_raises api"
  shows "\<exists>results' errs' st'.
           summarize_lemonade api transcript ps (results, tu, tc, errs) st = ((results', tu, tc, errs'), st')
           \<and> length errs' = length errs + length ps
           \<and> ([] \<notin> set errs \<longrightarrow> [] \<notin> set errs')
           \<and> calls st' = calls st + length ps"
proof (induction ps arbitrary: results errs st)
  case Nil
  then show ?case by simp
next
  case (Cons a ps)
  obtain component prompt_template where a: "a = (component, prompt_template)" by (cases a)
  from assms obtain e where e: "api (calls st) (full_prompt prompt_template transcript) = Raises e"
    unfolding always_raises_def by blast
  let ?st = "log_error (''Error processing '' @ component @ '' with Lemonade: '' @ e) (st\<lparr>calls := Suc (calls st)\<rparr>)"
  from Cons.IH [of "results @ [(component, ''ERROR: '' @ e)]" "errs @ [component @ '': '' @ e]" ?st]
  obtain results' errs' st' where
    "summarize_lemonade api transcript ps (results @ [(component, ''ERROR: '' @ e)], tu, tc, errs @ [component @ '': '' @ e]) ?st
       = ((results', tu, tc, errs'), st')"
    "length errs' = length (errs @ [component @ '': '' @ e]) + length ps"
    "[] \<notin> set (errs @ [component @ '': '' @ e]) \<longrightarrow> [] \<notin> set errs'"
    "calls st' = calls ?st + length ps"
    by blast
  then show ?case
    using e by (simp add: a call_def log_error_def)
qed

lemma summarization_result_error:
  assumes "length errs = 6" and "[] \<notin> set errs"
  shows "\<exists>e. e \<noteq> [] \<and> summarization_result (results, tu, tc, errs) = Result (Components results) tu tc (Some e)"
proof -
  from assms obtain x xs where "errs = x # xs" "x \<noteq> []"
    by (cases errs) auto
  then show ?thesis
    by (simp add: summarization_result_def join_nonempty)
qed

lemma length_summary_prompts: "length (get_summary_prompts sp) = 6"
  by (simp add: get_summary_prompts_def)

lemma process_summarization_claude_fails:
  assumes "always_raises api"
  shows "\<exists>e response st'. e \<noteq> [] \<and>
           process_summarization_claude api transcript sp st = (Result response zero_usage zero_cost (Some e), st')
           \<and> calls st' = calls st + 6"
proof -
  from summarize_claude_fails [OF assms, of transcript "get_summary_prompts sp" "[]" zero_usage zero_cost "[]" st]
  obtain results' errs' st' where
    s: "summarize_claude api transcript (get_summary_prompts sp) ([], zero_usage, zero_cost, []) st
          = ((results', zero_usage, zero_cost, errs'), st')"
    and l: "length errs' = 6" and n: "[] \<notin> set errs'" and c: "calls st' = calls st + 6"
    by (auto simp: length_summary_prompts)
  from summarization_result_error [OF l n, of results' zero_usage zero_cost]
  show ?thesis
    using s c by (auto simp: process_summarization_claude_def)
qed

lemma process_summarization_lemonade_fails:
  assumes "always_raises api"
  shows "\<exists>e response st'. e \<noteq> [] \<and>
           process_summarization_lemonade api transcript sp st = (Result response zero_usage zero_cost (Some e), st')
           \<and> calls st' = calls st + 6"
proof -
  from summarize_lemonade_fails [OF assms, of transcript "get_summary_prompts sp" "[]" zero_usage zero_cost "[]" st]
  obtain results' errs' st' where
    s: "summarize_lemonade api transcript (get_summary_prompts sp) ([], zero_usage, zero_cost, []) st
          = ((results', zero_usage, zero_cost, errs'), st')"
    and l: "length errs' = 6" and n: "[] \<notin> set errs'" and c: "calls st' = calls st + 6"
    by (auto simp: length_summary_prompts)
  from summarization_result_error [OF l n, of results' zero_usage zero_cost]
  show ?thesis
    using s c by (auto simp: process_summarization_lemonade_def)
qed

lemma query_fails:
  assumes "client_always_raises client"
  shows "\<exists>e response st'. e \<noteq> [] \<and>
           (case client of
              ClaudeClient api \<Rightarrow> query_claude api prompt st
            | LemonadeClient api \<Rightarrow> query_lemonade api prompt st)
             = (Result response zero_usage zero_cost (Some e), st')
           \<and> calls st' = Suc (calls st)"
proof (cases client)
  case (ClaudeClient api)
  with assms have "always_raises api" by simp
  then obtain e where "e \<noteq> []" "api (calls st) prompt = Raises e"
    unfolding always_raises_def by blast
  with ClaudeClient show ?thesis
    by (simp add: query_claude_def call_def log_error_def)
next
  case (LemonadeClient api)
  with assms have "always_raises api" by simp
  then obtain e where "e \<noteq> []" "api (calls st) prompt = Raises e"
    unfolding always_raises_def by blast
  with LemonadeClient show ?thesis
    by (simp add: query_lemonade_def call_def log_error_def)
qed

lemma add_error_some:
  "e \<noteq> [] \<Longrightarrow> (total_error = None \<or> (\<exists>t. total_error = Some t \<and> t \<noteq> []))
     \<Longrightarrow> \<exists>t. add_error total_error (Some e) = Some t \<and> t \<noteq> []"
  by (auto simp: add_error_def)

lemma answer_queries_fails:
  assumes "client_always_raises client"
      and "total_error = None \<or> (\<exists>t. total_error = Some t \<and> t \<noteq> [])"
  shows "\<exists>qa_results' total_error' st'.
           answer_queries client sp transcript queries (qa_results, zero_usage, zero_cost, total_error) st
             = ((qa_results', zero_usage, zero_cost, total_error'), st')
           \<and> (if queries = [] then total_error' = total_error
               else \<exists>t. total_error' = Some t \<and> t \<noteq> [])
           \<and> calls st' = calls st + length queries"
  using assms(2)
proof (induction queries arbitrary: qa_results total_error st)
  case Nil
  then show ?case by simp
next
  case (Cons query queries)
  from query_fails [OF assms(1), of "context_prompt sp transcript query" st]
  obtain e response st1 where e: "e \<noteq> []"
    and q: "(case client of
              ClaudeClient api \<Rightarrow> query_claude api (context_prompt sp transcript query) st
            | LemonadeClient api \<Rightarrow> query_lemonade api (context_prompt sp transcript query) st)
             = (Result response zero_usage zero_cost (Some e), st1)"
    and c1: "calls st1 = Suc (calls st)"
    by blast
  from add_error_some [OF e Cons.prems]
  obtain t where t: "add_error total_error (Some e) = Some t" "t \<noteq> []" by blast
  from Cons.IH [of "Some t" "qa_results @ [(query, response)]" st1] t
  obtain qa_results' total_error' st' where
    r: "answer_queries client sp transcript queries (qa_results @ [(query, response)], zero_usage, zero_cost, Some t) st1
             = ((qa_results', zero_usage, zero_cost, total_error'), st')"
    and te: "if queries = [] then total_error' = Some t else \<exists>t. total_error' = Some t \<and> t \<noteq> []"
    and c: "calls st' = calls st1 + length queries"
    by blast
  from te t have "\<exists>t. total_error' = Some t \<and> t \<noteq> []"
    by (auto split: if_splits)
  then show ?case
    using q r c c1 t by (simp add: accumulate_zero_usage accumulate_zero_cost)
qed

lemma process_item_fails:
  assumes "client_always_raises client" and "supported d"
  shows "\<exists>response err entry st'.
           process_item client ex d st = (Some (Result response zero_usage zero_cost err, entry), st')
           \<and> (if calls_of d = 0 then err = None else \<exists>e. err = Some e \<and> e \<noteq> [])
           \<and> calls st' = calls st + calls_of d"
proof (cases d)
  case (QA query ground_truth)
  show ?thesis
  proof (cases client)
    case (ClaudeClient api)
    with assms have "always_raises api" by simp
    from process_question_claude_fails [OF this, of query "system_prompt ex" st]
    show ?thesis using QA ClaudeClient by (auto simp: process_item_def)
  next
    case (LemonadeClient api)
    with assms have "always_raises api" by simp
    from process_question_lemonade_fails [OF this, of query "system_prompt ex" st]
    show ?thesis using QA LemonadeClient by (auto simp: process_item_def)
  qed
next
  case (QARaw transcript source_file queries)
  from answer_queries_fails [OF assms(1), of None "system_prompt ex" transcript queries "[]" st]
  obtain qa_results' total_error' st' where
    "answer_queries client (system_prompt ex) transcript queries ([], zero_usage, zero_cost, None) st
             = ((qa_results', zero_usage, zero_cost, total_error'), st')"
    "if queries = [] then total_error' = None else \<exists>t. total_error' = Some t \<and> t \<noteq> []"
    "calls st' = calls st + length queries"
    by auto
  then show ?thesis using QARaw by (auto simp: process_item_def)
next
  case (Summarization transcript source_file groundtruth_summaries)
  show ?thesis
  proof (cases client)
    case (ClaudeClient api)
    with assms have "always_raises api" by simp
    from process_summarization_claude_fails [OF this, of transcript "system_prompt ex" st]
    show ?thesis using Summarization ClaudeClient by (auto simp: process_item_def)
  next
    case (LemonadeClient api)
    with assms have "always_raises api" by simp
    from process_summarization_lemonade_fails [OF this, of transcript "system_prompt ex" st]
    show ?thesis using Summarization LemonadeClient by (auto simp: process_item_def)
  qed
next
  case (Other data_type)
  with assms show ?thesis by simp
qed

lemma process_item_other:
  "process_item client ex (Other data_type) st =
     (None, log_error (''Unsupported data type: '' @ data_type) st)"
  by (simp add: process_item_def)

lemma calls_log_error: "calls (log_error msg st) = calls st"
  by (simp add: log_error_def)

lemma run_items_fails:
  assumes "client_always_raises client"
  shows "\<exists>results' errs' st'.
           run_items client ex i data_items (results, tu, tc, errs) st = ((results', tu, tc, errs'), st')
           \<and> length errs' = length errs + length (filter (\<lambda>d. calls_of d > 0) data_items)
           \<and> calls st' = calls st + sum_list (map calls_of data_items)"
proof (induction data_items arbitrary: i results errs st)
  case Nil
  then show ?case by simp
next
  case (Cons d ds)
  show ?case
  proof (cases "supported d")
    case False
    then obtain data_type where d: "d = Other data_type" by (cases d) auto
    from Cons.IH [of "Suc i" results errs "log_error (''Unsupported data type: '' @ data_type) st"]
    show ?thesis by (simp add: d process_item_other calls_log_error)
  next
    case True
    from process_item_fails [OF assms True, of ex st]
    obtain response err entry st1 where
      p: "process_item client ex d st = (Some (Result response zero_usage zero_cost err, entry), st1)"
      and e: "if calls_of d = 0 then err = None else \<exists>e. err = Some e \<and> e \<noteq> []"
      and c: "calls st1 = calls st + calls_of d"
      by blast
    show ?thesis
    proof (cases "calls_of d = 0")
      case True
      with e have "err = None" by simp
      with Cons.IH [of "Suc i" "results @ [entry]" errs st1] p c True
      show ?thesis by (simp add: accumulate_zero_usage accumulate_zero_cost)
    next
      case False
      with e obtain m where m: "err = Some m" "m \<noteq> []" by auto
      with Cons.IH [of "Suc i" "results @ [entry]" "errs @ [''Item '' @ str_nat (Suc i) @ '': '' @ m]" st1]
        p c False
      show ?thesis by (simp add: accumulate_zero_usage accumulate_zero_cost add.assoc)
    qed
  qed
qed

lemma create_llm_client_fails:
  assumes "lower (llm_type ex) = ''claude'' \<or> lower (llm_type ex) = ''lemonade''"
      and "always_raises (get_completion_with_usage world)"
      and "always_raises (completions world)"
  shows "\<exists>client. create_llm_client world ex = Inr client \<and> client_always_raises client"
  using assms by (auto simp: create_llm_client_def)

lemma run_experiment_all_fail:
  assumes "lower (llm_type ex) = ''claude'' \<or> lower (llm_type ex) = ''lemonade''"
      and "always_raises (get_completion_with_usage world)"
      and "always_raises (completions world)"
  shows "\<exists>r. run_experiment world ex data_items output_dir = Inr r
           \<and> length (errors (metadata (document r)))
               = length (filter (\<lambda>d. calls_of d > 0) data_items)
           \<and> total_usage (metadata (document r)) = zero_usage
           \<and> total_cost (metadata (document r)) = zero_cost
           \<and> calls (effects r) = sum_list (map calls_of data_items)"
proof -
  from create_llm_client_fails [OF assms]
  obtain client where c: "create_llm_client world ex = Inr client" "client_always_raises client"
    by blast
  from run_items_fails [OF c(2), of ex 0 data_items "[]" zero_usage zero_cost "[]" "\<lparr>calls = 0, error_log = []\<rparr>"]
  obtain results' errs' st' where
    "run_items client ex 0 data_items ([], zero_usage, zero_cost, []) \<lparr>calls = 0, error_log = []\<rparr>
       = ((results', zero_usage, zero_cost, errs'), st')"
    "length errs' = length (filter (\<lambda>d. calls_of d > 0) data_items)"
    "calls st' = sum_list (map calls_of data_items)"
    by auto
  then show ?thesis
    using c(1) by (simp add: run_experiment_def)
qed

subsection \<open>What every run does\<close>

text \<open>
  The error log only grows, every supported item gives a result entry, and every item of
  another type gives a line of the log.
\<close>

lemma log_process_question_claude:
  "\<exists>res st'. process_question_claude api q sp st = (res, st') \<and> set (error_log st) \<subseteq> set (error_log st')"
  by (auto simp: process_question_claude_def call_def log_error_def
           split: outcome.splits response_data.splits)

lemma log_process_question_lemonade:
  "\<exists>res st'. process_question_lemonade api q sp st = (res, st') \<and> set (error_log st) \<subseteq> set (error_log st')"
  by (auto simp: process_question_lemonade_def call_def log_error_def split: outcome.splits)

lemma log_summarize_claude:
  "set (error_log st) \<subseteq> set (error_log (snd (summarize_claude api transcript ps acc st)))"
proof (induction ps arbitrary: acc st)
  case Nil
  then show ?case by simp
next
  case (Cons a ps)
  obtain component prompt_template where a: "a = (component, prompt_template)" by (cases a)
  obtain results tot_usage tot_cost errs where acc: "acc = (results, tot_usage, tot_cost, errs)"
    by (cases acc)
  show ?case
  proof (cases "api (calls st) (full_prompt prompt_template transcript)")
    case (Raises e)
    have "set (error_log st) \<subseteq> set (error_log (log_error (''Error processing '' @ component @ '' with Claude: '' @ e) (st\<lparr>calls := Suc (calls st)\<rparr>)))"
      by (auto simp: log_error_def)
    also note Cons.IH
    finally show ?thesis using Raises by (simp add: a acc call_def)
  next
    case (Returns rd)
    obtain content usage cost where rd: "rd = ResponseData content usage cost" by (cases rd)
    have "set (error_log st) \<subseteq> set (error_log (st\<lparr>calls := Suc (calls st)\<rparr>))" by simp
    also note Cons.IH
    finally show ?thesis using Returns rd by (simp add: a acc call_def)
  qed
qed

lemma log_summarize_lemonade:
  "set (error_log st) \<subseteq> set (error_log (snd (summarize_lemonade api transcript ps acc st)))"
proof (induction ps arbitrary: acc st)
  case Nil
  then show ?case by simp
next
  case (Cons a ps)
  obtain component prompt_template where a: "a = (component, prompt_template)" by (cases a)
  obtain results tot_usage tot_cost errs where acc: "acc = (results, tot_usage, tot_cost, errs)"
    by (cases acc)
  show ?case
  proof (cases "api (calls st) (full_prompt prompt_template transcript)")
    case (Raises e)
    have "set (error_log st) \<subseteq> set (error_log (log_error (''Error processing '' @ component @ '' with Lemonade: '' @ e) (st\<lparr>calls := Suc (calls st)\<rparr>)))"
      by (auto simp: log_error_def)
    also note Cons.IH
    finally show ?thesis using Raises by (simp add: a acc call_def)
  next
    case (Returns rd)
    have "set (error_log st) \<subseteq> set (error_log (st\<lparr>calls := Suc (calls st)\<rparr>))" by simp
    also note Cons.IH
    finally show ?thesis using Returns by (simp add: a acc call_def)
  qed
qed

lemma log_query:
  "set (error_log st) \<subseteq> set (error_log (snd (case client of
              ClaudeClient api \<Rightarrow> query_claude api prompt st
            | LemonadeClient api \<Rightarrow> query_lemonade api prompt st)))"
  by (auto simp: query_claude_def query_lemonade_def call_def log_error_def
           split: client.splits outcome.splits response_data.splits)

lemma log_answer_queries:
  "set (error_log st) \<subseteq> set (error_log (snd (answer_queries client sp transcript queries acc st)))"
proof (induction queries arbitrary: acc st)
  case Nil
  then show ?case by simp
next
  case (Cons query queries)
  obtain qa_results tot_usage tot_cost total_error where
    acc: "acc = (qa_results, tot_usage, tot_cost, total_error)" by (cases acc)
  let ?q = "case client of
              ClaudeClient api \<Rightarrow> query_claude api (context_prompt sp transcript query) st
            | LemonadeClient api \<Rightarrow> query_lemonade api (context_prompt sp transcript query) st"
  obtain response usage cost error st1 where q: "?q = (Result response usage cost error, st1)"
    by (cases ?q) (metis result.exhaust)
  have "set (error_log st) \<subseteq> set (error_log st1)"
    using log_query [where st=st and client=client and prompt="context_prompt sp transcript query"] q by simp
  also note Cons.IH
  finally show ?case using q by (simp add: acc)
qed

lemma process_item_supported:
  assumes "supported d"
  shows "\<exists>res entry st'. process_item client ex d st = (Some (res, entry), st')
           \<and> set (error_log st) \<subseteq> set (error_log st')"
proof (cases d)
  case (QA query ground_truth)
  show ?thesis
  proof (cases client)
    case (ClaudeClient api)
    from log_process_question_claude [of api query "system_prompt ex" st]
    show ?thesis using QA ClaudeClient by (auto simp: process_item_def split: result.splits)
  next
    case (LemonadeClient api)
    from log_process_question_lemonade [of api query "system_prompt ex" st]
    show ?thesis using QA LemonadeClient by (auto simp: process_item_def split: result.splits)
  qed
next
  case (QARaw transcript source_file queries)
  from log_answer_queries [where st=st and client=client and sp="system_prompt ex" and transcript=transcript and queries=queries and acc="([], zero_usage, zero_cost, None)"]
  show ?thesis using QARaw by (auto simp: process_item_def split: prod.splits)
next
  case (Summarization transcript source_file groundtruth_summaries)
  show ?thesis
  proof (cases client)
    case (ClaudeClient api)
    from log_summarize_claude [where st=st and api=api and transcript=transcript and ps="get_summary_prompts (system_prompt ex)" and acc="([], zero_usage, zero_cost, [])"]
    show ?thesis using Summarization ClaudeClient
      by (auto simp: process_item_def process_summarization_claude_def split: prod.splits result.splits)
  next
    case (LemonadeClient api)
    from log_summarize_lemonade [where st=st and api=api and transcript=transcript and ps="get_summary_prompts (system_prompt ex)" and acc="([], zero_usage, zero_cost, [])"]
    show ?thesis using Summarization LemonadeClient
      by (auto simp: process_item_def process_summarization_lemonade_def split: prod.splits result.splits)
  qed
next
  case (Other data_type)
  with assms show ?thesis by simp
qed

lemma run_items_continues:
  "\<exists>results' tu' tc' errs' st'.
     run_items client ex i data_items (results, tu, tc, errs) st = ((results', tu', tc', errs'), st')
     \<and> length results' = length results + length (filter supported data_items)
     \<and> set (error_log st) \<subseteq> set (error_log st')
     \<and> (\<forall>t. Other t \<in> set data_items \<longrightarrow> (''Unsupported data type: '' @ t) \<in> set (error_log st'))"
proof (induction data_items arbitrary: i results tu tc errs st)
  case Nil
  then show ?case by simp
next
  case (Cons d ds)
  show ?case
  proof (cases "supported d")
    case False
    then obtain data_type where d: "d = Other data_type" by (cases d) auto
    let ?st = "log_error (''Unsupported data type: '' @ data_type) st"
    from Cons.IH [of "Suc i" results tu tc errs ?st]
    obtain results' tu' tc' errs' st' where
      r: "run_items client ex (Suc i) ds (results, tu, tc, errs) ?st = ((results', tu', tc', errs'), st')"
      and l: "length results' = length results + length (filter supported ds)"
      and g: "set (error_log ?st) \<subseteq> set (error_log st')"
      and u: "\<forall>t. Other t \<in> set ds \<longrightarrow> (''Unsupported data type: '' @ t) \<in> set (error_log st')"
      by blast
    from g have "set (error_log st) \<subseteq> set (error_log st')"
      and "(''Unsupported data type: '' @ data_type) \<in> set (error_log st')"
      by (auto simp: log_error_def)
    with r l u show ?thesis by (auto simp: d process_item_other)
  next
    case True
    from process_item_supported [OF True, of client ex st]
    obtain res entry st1 where
      p: "process_item client ex d st = (Some (res, entry), st1)"
      and g1: "set (error_log st) \<subseteq> set (error_log st1)"
      by blast
    obtain response usage cost error where res: "res = Result response usage cost error"
      by (cases res)
    let ?errs = "case error of None \<Rightarrow> errs
                 | Some e \<Rightarrow> if e = [] then errs else errs @ [''Item '' @ str_nat (Suc i) @ '': '' @ e]"
    from Cons.IH [of "Suc i" "results @ [entry]" "accumulate tu usage" "accumulate tc cost" ?errs st1]
    obtain results' tu' tc' errs' st' where
      r: "run_items client ex (Suc i) ds (results @ [entry], accumulate tu usage, accumulate tc cost, ?errs) st1
            = ((results', tu', tc', errs'), st')"
      and l: "length results' = length (results @ [entry]) + length (filter supported ds)"
      and g: "set (error_log st1) \<subseteq> set (error_log st')"
      and u: "\<forall>t. Other t \<in> set ds \<longrightarrow> (''Unsupported data type: '' @ t) \<in> set (error_log st')"
      by blast
    from True have "\<And>t. d \<noteq> Other t" by auto
    with r l g g1 u p True show ?thesis by (auto simp: res)
  qed
qed

subsection \<open>Concrete runs\<close>

lemma str_nat_1: "str_nat (Suc 0) = ''1''"
  by (simp add: str_nat.simps [of "Suc 0"] digit_char_def)

lemma lower_literals:
  "lower ''claude'' = ''claude''" "lower ''Lemonade'' = ''lemonade''"
  by (simp_all add: lower_def lower_char_def)

lemma failing_world_always_raises:
  "always_raises (get_completion_with_usage failing_world)"
  "always_raises (completions failing_world)"
  by (simp_all add: always_raises_def failing_world_def)

lemma one_call_each:
  assumes "\<forall>d \<in> set data_items. calls_of d \<le> 1"
  shows "sum_list (map calls_of data_items) = length (filter (\<lambda>d. calls_of d > 0) data_items)"
  using assms
proof (induction data_items)
  case Nil
  then show ?case by simp
next
  case (Cons d ds)
  then have "calls_of d = 0 \<or> calls_of d = 1" by auto
  with Cons show ?case by auto
qed

subsection \<open>The claims on the runner\<close>

text \<open>
  C1, as the source has it. When the type of the client is one of the two and every
  backend call raises with a message that is not empty, \<open>run_experiment\<close> returns with
  its document written; \<open>metadata.errors\<close> has one entry for each item that made a call
  (the messages of the calls of one item are joined into the entry of the item), so its
  length is the number of failed calls when no item makes more than one call, as with
  \<open>qa\<close> items; the total usage and the total cost are all zeros; and the number of
  failed calls is the sum of the calls of the items.
\<close>

theorem all_calls_fail_document:
  assumes "lower (llm_type ex) = ''claude'' \<or> lower (llm_type ex) = ''lemonade''"
      and "always_raises (get_completion_with_usage world)"
      and "always_raises (completions world)"
  shows "\<exists>r. run_experiment world ex data_items output_dir = Inr r
           \<and> length (errors (metadata (document r)))
               = length (filter (\<lambda>d. calls_of d > 0) data_items)
           \<and> ((\<forall>d \<in> set data_items. calls_of d \<le> 1) \<longrightarrow>
                length (errors (metadata (document r))) = calls (effects r))
           \<and> total_usage (metadata (document r)) = zero_usage
           \<and> total_cost (metadata (document r)) = zero_cost
           \<and> calls (effects r) = sum_list (map calls_of data_items)"
proof -
  from run_experiment_all_fail [OF assms, of data_items output_dir]
  obtain r where r: "run_experiment world ex data_items output_dir = Inr r"
    "length (errors (metadata (document r))) = length (filter (\<lambda>d. calls_of d > 0) data_items)"
    "total_usage (metadata (document r)) = zero_usage"
    "total_cost (metadata (document r)) = zero_cost"
    "calls (effects r) = sum_list (map calls_of data_items)"
    by blast
  then have "(\<forall>d \<in> set data_items. calls_of d \<le> 1) \<longrightarrow>
                length (errors (metadata (document r))) = calls (effects r)"
    by (simp add: one_call_each)
  with r show ?thesis by blast
qed

text \<open>
  Two questions and an item of another type, on the local backend: two failed calls and
  two entries in \<open>errors\<close>.
\<close>

theorem all_calls_fail_document_witness:
  "(lower (llm_type lemonade_qa) = ''claude'' \<or> lower (llm_type lemonade_qa) = ''lemonade'')
   \<and> always_raises (get_completion_with_usage failing_world)
   \<and> always_raises (completions failing_world)
   \<and> (\<exists>r. run_experiment failing_world lemonade_qa
              [QA ''Who attended?'' ''Alice and Bob'', Other ''image'', QA ''What was decided?'' ''Ship it'']
              ''out'' = Inr r
          \<and> length (errors (metadata (document r))) = 2
          \<and> calls (effects r) = 2
          \<and> total_usage (metadata (document r)) = zero_usage
          \<and> total_cost (metadata (document r)) = zero_cost)"
proof -
  have l: "lower (llm_type lemonade_qa) = ''claude'' \<or> lower (llm_type lemonade_qa) = ''lemonade''"
    by (simp add: lemonade_qa_def lower_literals)
  from all_calls_fail_document [OF l failing_world_always_raises,
      of "[QA ''Who attended?'' ''Alice and Bob'', Other ''image'', QA ''What was decided?'' ''Ship it'']" "''out''"]
  show ?thesis
    using l failing_world_always_raises by auto
qed

text \<open>
  C1 as it is stated fails on a summarization item: its six calls all fail, and
  \<open>errors\<close> has the single entry of the item.
\<close>

theorem all_calls_fail_counterexample:
  "always_raises (get_completion_with_usage failing_world)
   \<and> (\<exists>r. run_experiment failing_world claude_summarization
              [Summarization ''Alice: hello'' ''meeting.txt'' None] ''out'' = Inr r
          \<and> calls (effects r) = 6
          \<and> errors (metadata (document r)) =
              [''Item 1: executive_summary: overloaded; detailed_summary: overloaded; action_items: overloaded; key_decisions: overloaded; participants: overloaded; topics_discussed: overloaded'']
          \<and> length (errors (metadata (document r))) \<noteq> calls (effects r))"
  by (simp add: failing_world_always_raises)
     (simp add: run_experiment_def create_llm_client_def claude_summarization_def lower_literals
        failing_world_def process_item_def process_summarization_claude_def get_summary_prompts_def
        call_def log_error_def summarization_result_def str_nat_1 zero_usage_def zero_cost_def
        accumulate_def)

text \<open>
  C6, as the source has it. The step of the loop on an item of another type changes
  neither the results nor the usage, the cost or \<open>errors\<close>: it writes a line to the
  error log and goes on with the rest of the items at the next index. So a run over a
  list that holds such an item returns (the type of the client and of the experiment
  being valid), counts the item in \<open>total_items\<close>, has one result entry for each
  supported item before and after it, and has the line in its log.
\<close>

theorem unsupported_item_skipped:
  "run_items client ex i (Other data_type # rest) (results, tu, tc, errs) st
     = run_items client ex (Suc i) rest (results, tu, tc, errs)
         (log_error (''Unsupported data type: '' @ data_type) st)
   \<and> (lower (llm_type ex) \<in> {''claude'', ''lemonade''}
        \<and> experiment_type ex \<in> {''qa'', ''summarization''} \<longrightarrow>
        (\<exists>r key entries.
            run_experiment world ex (before @ Other data_type # rest) output_dir = Inr r
            \<and> total_items (metadata (document r)) = length before + 1 + length rest
            \<and> analysis (document r) = [(key, entries)]
            \<and> length entries = length (filter supported before) + length (filter supported rest)
            \<and> (''Unsupported data type: '' @ data_type) \<in> set (error_log (effects r))))"
proof (intro conjI impI)
  show "run_items client ex i (Other data_type # rest) (results, tu, tc, errs) st
     = run_items client ex (Suc i) rest (results, tu, tc, errs)
         (log_error (''Unsupported data type: '' @ data_type) st)"
    by (simp add: process_item_other)
next
  assume a: "lower (llm_type ex) \<in> {''claude'', ''lemonade''}
        \<and> experiment_type ex \<in> {''qa'', ''summarization''}"
  then obtain c where c: "create_llm_client world ex = Inr c"
    by (auto simp: create_llm_client_def)
  let ?items = "before @ Other data_type # rest"
  from run_items_continues [of c ex 0 ?items "[]" zero_usage zero_cost "[]" "\<lparr>calls = 0, error_log = []\<rparr>"]
  obtain results' tu' tc' errs' st' where
    r: "run_items c ex 0 ?items ([], zero_usage, zero_cost, []) \<lparr>calls = 0, error_log = []\<rparr>
          = ((results', tu', tc', errs'), st')"
    and l: "length results' = length (filter supported ?items)"
    and u: "(''Unsupported data type: '' @ data_type) \<in> set (error_log st')"
    by auto
  from a have "\<exists>key. analysis_of ex results' = [(key, results')]"
    by (auto simp: analysis_of_def split: list.splits result_entry.splits)
  then obtain key where "analysis_of ex results' = [(key, results')]" by blast
  with c r l u
  show "\<exists>r key entries.
            run_experiment world ex ?items output_dir = Inr r
            \<and> total_items (metadata (document r)) = length before + 1 + length rest
            \<and> analysis (document r) = [(key, entries)]
            \<and> length entries = length (filter supported before) + length (filter supported rest)
            \<and> (''Unsupported data type: '' @ data_type) \<in> set (error_log (effects r))"
    by (simp add: run_experiment_def)
qed

theorem unsupported_item_skipped_witness:
  "lower (llm_type lemonade_qa) \<in> {''claude'', ''lemonade''}
   \<and> experiment_type lemonade_qa \<in> {''qa'', ''summarization''}
   \<and> (\<exists>r key entries.
          run_experiment failing_world lemonade_qa
            ([QA ''Who attended?'' ''Alice and Bob''] @ Other ''image'' # [QA ''What was decided?'' ''Ship it''])
            ''out'' = Inr r
          \<and> total_items (metadata (document r)) = 3
          \<and> analysis (document r) = [(key, entries)]
          \<and> length entries = 2
          \<and> ''Unsupported data type: image'' \<in> set (error_log (effects r)))"
proof -
  have h: "lower (llm_type lemonade_qa) \<in> {''claude'', ''lemonade''}
           \<and> experiment_type lemonade_qa \<in> {''qa'', ''summarization''}"
    by (simp add: lemonade_qa_def lower_literals)
  from unsupported_item_skipped [where ex = lemonade_qa and world = failing_world
      and before = "[QA ''Who attended?'' ''Alice and Bob'']" and data_type = "''image''"
      and rest = "[QA ''What was decided?'' ''Ship it'']" and output_dir = "''out''",
      THEN conjunct2, THEN mp, OF h]
  obtain r key entries where
    "run_experiment failing_world lemonade_qa
       ([QA ''Who attended?'' ''Alice and Bob''] @ Other ''image'' # [QA ''What was decided?'' ''Ship it''])
       ''out'' = Inr r"
    "total_items (metadata (document r)) = 3"
    "analysis (document r) = [(key, entries)]"
    "length entries = 2"
    "''Unsupported data type: image'' \<in> set (error_log (effects r))"
    by auto
  with h show ?thesis by blast
qed

text \<open>
  C6 as it is stated fails: after a run over one item of another type, \<open>errors\<close> is
  empty; the error is in the log only.
\<close>

theorem unsupported_item_counterexample:
  "\<exists>r. run_experiment failing_world lemonade_qa [Other ''image''] ''out'' = Inr r
      \<and> total_items (metadata (document r)) = 1
      \<and> errors (metadata (document r)) = []
      \<and> error_log (effects r) = [''Unsupported data type: image'']"
  by (simp add: run_experiment_def create_llm_client_def lemonade_qa_def lower_literals
        failing_world_def process_item_def log_error_def)

section \<open>Properties of \<open>generate_summary_report\<close>\<close>

text \<open>The sort leaves the models in the descending order of their pass rates.\<close>

lemma summary_data_descending:
  "sorted_wrt (\<lambda>a b. a \<ge> b) (map pass_rate (sort_key (\<lambda>x. - pass_rate x) ms))"
proof -
  have "sorted (map (\<lambda>x. - pass_rate x) (sort_key (\<lambda>x. - pass_rate x) ms))"
    by (rule sorted_sort_key)
  then show ?thesis
    by (simp add: sorted_wrt_map)
qed

text \<open>
  For evaluations that are not summarization evaluations, the ranking lists all the
  models, in the descending order of the pass rates it prints.
\<close>

lemma qa_ranking_descending:
  assumes "generate_summary_report ms = Inr s"
      and "detect_evaluation_type (summary_data s) \<noteq> ''summarization''"
  shows "descending (ranking s) \<and> set (summary_data s) = set ms
         \<and> length (summary_data s) = length ms
         \<and> ranking s = map (\<lambda>m. (model_name m, pass_rate m)) (summary_data s)"
proof -
  from assms(1) have ne: "ms \<noteq> []"
    by (auto simp: generate_summary_report_def split: if_splits)
  with assms(1) have sd: "summary_data s = sort_key (\<lambda>x. - pass_rate x) ms"
    by (auto simp: generate_summary_report_def Let_def)
  from assms ne have r: "ranking s = markdown_ranking (summary_data s)"
    by (auto simp: generate_summary_report_def Let_def)
  have "map snd (markdown_ranking (summary_data s)) = map pass_rate (summary_data s)"
    by (simp add: markdown_ranking_def comp_def)
  then have "descending (ranking s)"
    unfolding descending_def r sd using summary_data_descending [of ms] by simp
  with sd r show ?thesis by (simp add: markdown_ranking_def)
qed

lemma qa_ranking_example:
  "\<exists>s. generate_summary_report [rag_low, rag_high] = Inr s
      \<and> ranking s = [(''high'', 0.75), (''low'', 0.25)]"
  by (simp add: generate_summary_report_def rag_low_def rag_high_def detect_evaluation_type_def
       summarization_keys_def markdown_ranking_def Let_def)

text \<open>
  C7. For summarization evaluations the ranking is not in the descending order of the
  weighted quality scores. The report sorts the models by pass rate only; the two
  evaluations \<open>A\<close> (one summary, rated poor) and \<open>B\<close> (one summary, rated excellent)
  have no pass rate, so the sort leaves them as the directory listed them, and the
  ranking line puts \<open>A\<close> with score 1 before \<open>B\<close> with score 4.
\<close>

theorem summarization_ranking_not_by_quality:
  "\<exists>s. generate_summary_report [eval_a, eval_b] = Inr s
      \<and> summary_data s = [eval_a, eval_b]
      \<and> detect_evaluation_type (summary_data s) = ''summarization''
      \<and> ranking s = [(''A'', 1), (''B'', 4)]
      \<and> \<not> descending (ranking s)"
  by (simp add: generate_summary_report_def eval_a_def eval_b_def detect_evaluation_type_def
       summarization_keys_def quality_score_def overall_quality_def descending_def Let_def)

section \<open>Properties of \<open>calculate_similarity\<close>\<close>

text \<open>
  What the function itself adds to the library's computation: a text that is empty after
  trimming gives 0 without any call, an exception of the library gives 0, and every other
  value is the library's, unchanged. The range of the score and its symmetry are therefore
  those of the library's floating-point result on texts that are not blank.
\<close>

lemma calculate_similarity_blank:
  "strip text1 = [] \<or> strip text2 = [] \<Longrightarrow> calculate_similarity tfidf_cosine text1 text2 = 0"
  by (simp add: calculate_similarity_def)

lemma calculate_similarity_raises:
  "tfidf_cosine text1 text2 = Raises e \<Longrightarrow> calculate_similarity tfidf_cosine text1 text2 = 0"
  by (simp add: calculate_similarity_def)

lemma calculate_similarity_returns:
  "strip text1 \<noteq> [] \<Longrightarrow> strip text2 \<noteq> [] \<Longrightarrow> tfidf_cosine text1 text2 = Returns s
     \<Longrightarrow> calculate_similarity tfidf_cosine text1 text2 = s"
  by (simp add: calculate_similarity_def)

lemma calculate_similarity_range:
  assumes "\<And>s. tfidf_cosine text1 text2 = Returns s \<Longrightarrow> 0 \<le> s \<and> s \<le> 1"
  shows "0 \<le> calculate_similarity tfidf_cosine text1 text2
         \<and> calculate_similarity tfidf_cosine text1 text2 \<le> 1"
  using assms by (auto simp: calculate_similarity_def split: outcome.splits)

lemma calculate_similarity_symmetric:
  assumes "tfidf_cosine text1 text2 = tfidf_cosine text2 text1"
  shows "calculate_similarity tfidf_cosine text1 text2 = calculate_similarity tfidf_cosine text2 text1"
  using assms by (auto simp: calculate_similarity_def)

lemma strip_examples:
  "strip [CHR '' '', CHR 0x0A, CHR 0x09] = []" "strip ''  the cat  '' = ''the cat''"
  by (simp_all add: strip_def rstrip_def isspace_def)

lemma calculate_similarity_examples:
  "calculate_similarity (\<lambda>a b. Returns 1) [CHR '' '', CHR 0x0A] ''the cat'' = 0"
  "calculate_similarity (\<lambda>a b. Raises ''empty vocabulary'') ''the'' ''and'' = 0"
  by (simp_all add: calculate_similarity_def strip_def rstrip_def isspace_def)

text \<open>
  C5. The score is not always in the interval from 0 to 1 that the claim and the docstring
  of the function give: on texts that are not blank the function returns the double of
  the library as it is, without clamping it, so a library result above 1 is the score.
  The library returns such a result on two identical texts \<open>hello world\<close>. The two other
  parts of the claim hold: \<open>calculate_similarity_blank\<close> and
  \<open>calculate_similarity_raises\<close>.
\<close>

theorem calculate_similarity_unclamped:
  assumes "strip text1 \<noteq> []" and "strip text2 \<noteq> []"
      and "tfidf_cosine text1 text2 = Returns s" and "s > 1"
  shows "calculate_similarity tfidf_cosine text1 text2 = s
         \<and> \<not> calculate_similarity tfidf_cosine text1 text2 \<le> 1"
  using assms by (simp add: calculate_similarity_def)

theorem calculate_similarity_unclamped_witness:
  "strip ''hello world'' \<noteq> []
   \<and> score_hello_world > 1
   \<and> calculate_similarity (\<lambda>text1 text2. Returns score_hello_world) ''hello world'' ''hello world''
       = score_hello_world
   \<and> \<not> calculate_similarity (\<lambda>text1 text2. Returns score_hello_world) ''hello world'' ''hello world''
         \<le> 1"
proof -
  have b: "strip ''hello world'' \<noteq> []"
    by (simp add: strip_def rstrip_def isspace_def)
  have g: "score_hello_world > 1"
    by (simp add: score_hello_world_def)
  from calculate_similarity_unclamped [OF b b _ g,
      of "\<lambda>text1 text2. Returns score_hello_world"] b g
  show ?thesis by simp
qed

end
